theory Spec2Isabelle
  imports Main "HOL-Library.Sublist"
begin

section \<open>Python strings\<close>

text \<open>
  A Python \<open>str\<close> is modelled as a \<open>string\<close>. Characters outside ASCII are carried as
  their UTF-8 bytes; \<open>lower\<close> changes the letters A to Z only and \<open>strip\<close> removes
  ASCII white space only, which is what \<open>str.lower\<close> and \<open>str.strip\<close> do on ASCII text. \<open>sublist k s\<close> is Python's \<open>k in s\<close> and
  \<open>prefix k s\<close> is \<open>s.startswith(k)\<close>.
\<close>

definition lower_char :: "char \<Rightarrow> char" where
  "lower_char c =
     (let n = (of_char c :: nat) in if 65 \<le> n \<and> n \<le> 90 then char_of (n + 32) else c)"

definition lower :: "string \<Rightarrow> string" where
  "lower s = map lower_char s"

definition is_space :: "char \<Rightarrow> bool" where
  "is_space c = ((of_char c :: nat) \<in> {9, 10, 11, 12, 13, 28, 29, 30, 31, 32})"

definition strip :: "string \<Rightarrow> string" where
  "strip s = rev (dropWhile is_space (rev (dropWhile is_space s)))"

text \<open>\<open>any(word in s for word in ws)\<close>\<close>

definition any_in :: "string list \<Rightarrow> string \<Rightarrow> bool" where
  "any_in ws s = list_ex (\<lambda>w. sublist w s) ws"

section \<open>Text classification\<close>

text \<open>
  \<open>BrowserExecutor.determine_success_status\<close>: the guard \<open>not result_data\<close> is the
  test for the empty string.
\<close>

definition determine_success_status :: "string \<Rightarrow> string" where
  "determine_success_status result_data =
     (if result_data = [] \<or> result_data = ''N/A'' then ''unknown''
      else let result_lower = lower result_data in
        if any_in [''success'', ''completed'', ''done'', ''found''] result_lower then ''success''
        else if any_in [''failed'', ''error'', ''exception'', ''timeout'', ''not found''] result_lower
          then ''failed''
        else if sublist ''[]'' result_data \<or> sublist ''empty'' result_lower
                \<or> sublist ''none'' result_lower then ''empty''
        else if length (strip result_data) > 0 then ''completed''
        else ''unknown'')"


text \<open>\<open>data.split('\n')[0].strip()\<close>\<close>

definition first_line :: "string \<Rightarrow> string" where
  "first_line s = strip (takeWhile (\<lambda>c. c \<noteq> CHR 0x0A) s)"

text \<open>\<open>s[:60] + "..." if len(s) > 60 else s\<close>\<close>

definition truncate60 :: "string \<Rightarrow> string" where
  "truncate60 s = (if length s > 60 then take 60 s @ ''...'' else s)"

text \<open>\<open>BrowserExecutor.extract_action_summary\<close>\<close>

definition extract_action_summary :: "string \<Rightarrow> string" where
  "extract_action_summary action_data =
     (if action_data = [] \<or> action_data = ''N/A'' then ''No action specified''
      else let fl = first_line action_data; l = lower fl in
        if sublist ''navigate'' l \<or> sublist ''goto'' l then ''Navigating to webpage''
        else if sublist ''click'' l then ''Clicking element''
        else if sublist ''type'' l \<or> sublist ''input'' l then ''Entering text''
        else if sublist ''scroll'' l then ''Scrolling page''
        else if sublist ''wait'' l then ''Waiting for element''
        else if sublist ''screenshot'' l then ''Taking screenshot''
        else if sublist ''search'' l then ''Searching''
        else truncate60 fl)"

text \<open>\<open>BrowserExecutor.extract_result_summary\<close>\<close>

definition extract_result_summary :: "string \<Rightarrow> string" where
  "extract_result_summary result_data =
     (if result_data = [] \<or> result_data = ''N/A'' then ''No result available''
      else let fl = first_line result_data; l = lower fl in
        if sublist ''success'' l then ''Action completed successfully''
        else if sublist ''failed'' l \<or> sublist ''error'' l then ''Action failed''
        else if sublist ''found'' l then ''Element found''
        else if sublist ''loaded'' l then ''Page loaded''
        else if sublist ''clicked'' l then ''Click performed''
        else if sublist ''typed'' l then ''Text entered''
        else if sublist ''[]'' fl \<or> sublist ''empty'' l then ''No results returned''
        else truncate60 fl)"

text \<open>\<open>BrowserExecutor.classify_action_type\<close>\<close>

definition classify_action_type :: "string \<Rightarrow> string" where
  "classify_action_type action_data =
     (if action_data = [] \<or> action_data = ''N/A'' then ''unknown''
      else let action_lower = lower action_data in
        if any_in [''navigate'', ''goto'', ''visit''] action_lower then ''navigation''
        else if any_in [''click'', ''tap'', ''press''] action_lower then ''interaction''
        else if any_in [''type'', ''input'', ''enter'', ''fill''] action_lower then ''input''
        else if any_in [''scroll'', ''swipe''] action_lower then ''scroll''
        else if any_in [''wait'', ''pause'', ''sleep''] action_lower then ''wait''
        else if any_in [''screenshot'', ''capture'', ''image''] action_lower then ''capture''
        else if any_in [''search'', ''find'', ''locate''] action_lower then ''search''
        else if any_in [''extract'', ''get'', ''read''] action_lower then ''extraction''
        else ''other'')"

section \<open>Python values, objects and exceptions\<close>

text \<open>
  The values that the automation backend hands over are dynamically typed. \<open>pyval\<close>
  holds the scalar ones; \<open>py_truthy\<close> is Python's truth test and \<open>py_str\<close> is
  \<open>str(v)\<close>. An object is the association list of its attributes, so that
  \<open>hasattr\<close> is membership and a read of a missing attribute raises.
\<close>

datatype pyval = VNone | VBool bool | VInt int | VStr string

text \<open>An \<open>AttributeError\<close> carries the name of the type of the object and the name
  of the attribute; the other exceptions carry their message.\<close>

datatype error = AttributeError string string | ValueError string | OSError string

type_synonym pyobj = "(string \<times> pyval) list"

fun show_nat :: "nat \<Rightarrow> string" where
  "show_nat n =
     (if n < 10 then [char_of (48 + n)] else show_nat (n div 10) @ [char_of (48 + n mod 10)])"

declare show_nat.simps [simp del]

definition show_int :: "int \<Rightarrow> string" where
  "show_int i = (if i < 0 then ''-'' @ show_nat (nat (- i)) else show_nat (nat i))"

fun py_truthy :: "pyval \<Rightarrow> bool" where
  "py_truthy VNone = False"
| "py_truthy (VBool b) = b"
| "py_truthy (VInt i) = (i \<noteq> 0)"
| "py_truthy (VStr s) = (s \<noteq> [])"

fun py_str :: "pyval \<Rightarrow> string" where
  "py_str VNone = ''None''"
| "py_str (VBool b) = (if b then ''True'' else ''False'')"
| "py_str (VInt i) = show_int i"
| "py_str (VStr s) = s"

text \<open>\<open>type(v).__name__\<close>\<close>

fun py_type_name :: "pyval \<Rightarrow> string" where
  "py_type_name VNone = ''NoneType''"
| "py_type_name (VBool b) = ''bool''"
| "py_type_name (VInt i) = ''int''"
| "py_type_name (VStr s) = ''str''"

text \<open>A name between apostrophes.\<close>

definition quoted :: "string \<Rightarrow> string" where
  "quoted s = [CHR 0x27] @ s @ [CHR 0x27]"

text \<open>\<open>str(e)\<close> of a caught exception.\<close>

fun error_str :: "error \<Rightarrow> string" where
  "error_str (AttributeError cls a) = quoted cls @ '' object has no attribute '' @ quoted a"
| "error_str (ValueError m) = m"
| "error_str (OSError m) = m"

text \<open>\<open>obj.name\<close> for an object of the class \<open>cls\<close>, raising when the attribute is
  missing.\<close>

definition getattr :: "string \<Rightarrow> pyobj \<Rightarrow> string \<Rightarrow> error + pyval" where
  "getattr cls obj name =
     (case map_of obj name of None \<Rightarrow> Inl (AttributeError cls name) | Some v \<Rightarrow> Inr v)"

text \<open>\<open>getattr(obj, name, default)\<close> and \<open>dict.get(name, default)\<close>\<close>

definition getattr_default :: "pyobj \<Rightarrow> string \<Rightarrow> pyval \<Rightarrow> pyval" where
  "getattr_default obj name d = (case map_of obj name of None \<Rightarrow> d | Some v \<Rightarrow> v)"

text \<open>Sequencing of computations that may raise.\<close>

definition bind_err :: "error + 'a \<Rightarrow> ('a \<Rightarrow> error + 'b) \<Rightarrow> error + 'b" where
  "bind_err m f = (case m of Inl e \<Rightarrow> Inl e | Inr x \<Rightarrow> f x)"

text \<open>\<open>sep.join(xs)\<close>\<close>

fun join :: "string \<Rightarrow> string list \<Rightarrow> string" where
  "join sep [] = []"
| "join sep [x] = x"
| "join sep (x # y # ys) = x @ sep @ join sep (y # ys)"


section \<open>The normalized trace\<close>

text \<open>
  The dictionaries built by \<open>BrowserExecutor.save_execution_results\<close>, as records. A key
  that a dictionary may lack is an \<open>option\<close> field. Fields that only carry debugging
  output (time stamps, type names, attribute listings, the brain state, the parsed
  detail dictionaries of the text branches and the conversation entries) are left out:
  no step of the control flow reads them.
\<close>

record thought =
  th_timestamp :: string
  th_type :: string
  th_message :: string

record step_thoughts =
  st_actions :: "string list"
  st_observations :: "string list"
  st_decisions :: "string list"

record action =
  a_type :: string
  a_details :: pyobj

record result_item =
  r_content :: pyval
  r_is_done :: pyval
  r_success :: pyval
  r_error :: pyval

text \<open>The dictionary \<open>step_info\<close>, an entry of \<open>results["execution_steps"]\<close>.\<close>

record step_info =
  si_step_number :: nat
  si_action :: string
  si_result :: string
  si_screenshot :: "string option"
  si_screenshot_url :: "string option"
  si_action_type :: string
  si_success :: bool
  si_actions :: "action list option"
  si_results :: "result_item list option"
  si_thoughts :: "step_thoughts option"

text \<open>
  The dictionary \<open>enhanced_step\<close>, an entry of \<open>results["enhanced_steps"]\<close>.
  \<open>es_detail_actions\<close> is \<open>action_details["actions"]\<close> and \<open>es_detail_results\<close> is
  \<open>result_details["results"]\<close>; \<open>es_actions\<close> is a top-level key \<open>"actions"\<close>, which the
  analysis looks for and the normalizer never writes.
\<close>

record enhanced_step =
  es_step_number :: nat
  es_action_summary :: string
  es_actions :: "action list option"
  es_detail_actions :: "action list option"
  es_result_summary :: string
  es_detail_results :: "result_item list option"
  es_action_type :: string
  es_success_status :: string
  es_screenshot_url :: "string option"
  es_errors :: "string list"
  es_thoughts :: "step_thoughts option"

text \<open>The dictionary \<open>results\<close>.\<close>

record results =
  res_task_id :: string
  res_execution_steps :: "step_info list"
  res_screenshots :: "string list"
  res_screenshot_urls :: "string list"
  res_success :: bool
  res_error :: "string option"
  res_enhanced_steps :: "enhanced_step list"
  res_agent_thoughts :: "thought list"
  res_log_file :: "string option"

section \<open>Natural-language enrichment\<close>

text \<open>
  \<open>BrowserExecutor.enhance_step_with_thoughts\<close>. The step number is at least 1 at
  every call, so it is a natural number here. \<open>py_slice xs a b\<close> is \<open>xs[a:b]\<close> for
  indices that are not negative.
\<close>

definition py_slice :: "'a list \<Rightarrow> nat \<Rightarrow> nat \<Rightarrow> 'a list" where
  "py_slice xs a b = take (b - a) (drop a xs)"

definition thoughts_per_step :: "thought list \<Rightarrow> nat \<Rightarrow> nat" where
  "thoughts_per_step agent_thoughts step_number =
     (if agent_thoughts \<noteq> [] then max 1 (length agent_thoughts div max 1 step_number) else 0)"

definition thought_window :: "thought list \<Rightarrow> nat \<Rightarrow> thought list" where
  "thought_window agent_thoughts step_number =
     (let tps = thoughts_per_step agent_thoughts step_number;
          start_idx = (step_number - 1) * tps;
          end_idx = min (length agent_thoughts) (start_idx + tps + 2)
      in py_slice agent_thoughts start_idx end_idx)"

definition add_thought :: "step_thoughts \<Rightarrow> thought \<Rightarrow> step_thoughts" where
  "add_thought st t =
     (if th_type t = ''action'' then st\<lparr>st_actions := st_actions st @ [th_message t]\<rparr>
      else if th_type t = ''observation''
        then st\<lparr>st_observations := st_observations st @ [th_message t]\<rparr>
      else if th_type t = ''decision'' then st\<lparr>st_decisions := st_decisions st @ [th_message t]\<rparr>
      else st)"

text \<open>
  The messages of the step's own logging actions. A message that is not a string is
  carried as its \<open>str\<close> rendering.
\<close>

definition add_logged :: "step_thoughts \<Rightarrow> action \<Rightarrow> step_thoughts" where
  "add_logged st a =
     (if a_type a \<in> set [''log_action'', ''log_observation'', ''log_decision''] then
        let message = getattr_default (a_details a) ''message'' (VStr []) in
        if py_truthy message then
          (if a_type a = ''log_action'' then st\<lparr>st_actions := st_actions st @ [py_str message]\<rparr>
           else if a_type a = ''log_observation''
             then st\<lparr>st_observations := st_observations st @ [py_str message]\<rparr>
           else st\<lparr>st_decisions := st_decisions st @ [py_str message]\<rparr>)
        else st
      else st)"

definition collect_thoughts :: "thought list \<Rightarrow> nat \<Rightarrow> action list option \<Rightarrow> step_thoughts" where
  "collect_thoughts agent_thoughts step_number actions =
     (let st = foldl add_thought \<lparr>st_actions = [], st_observations = [], st_decisions = []\<rparr>
                 (thought_window agent_thoughts step_number)
      in case actions of None \<Rightarrow> st | Some as \<Rightarrow> foldl add_logged st as)"

definition technical_summary :: "nat \<Rightarrow> action list \<Rightarrow> string" where
  "technical_summary step_number as =
     (let technical_actions =
            filter (\<lambda>t. t \<notin> set [''log_action'', ''log_observation'', ''log_decision''])
              (map a_type as)
      in if technical_actions \<noteq> []
         then ''Step '' @ show_nat step_number @ '': '' @ join '', '' technical_actions
         else ''Step '' @ show_nat step_number @ '': '' @ join '', '' (map a_type as))"

definition enhance_step_with_thoughts ::
  "step_info \<Rightarrow> enhanced_step \<Rightarrow> nat \<Rightarrow> thought list \<Rightarrow> action list option
     \<Rightarrow> step_info \<times> enhanced_step" where
  "enhance_step_with_thoughts step_info enhanced_step step_number agent_thoughts actions =
     (let st = collect_thoughts agent_thoughts step_number actions;
          action_summary =
            (case st_actions st of m # _ \<Rightarrow> m
             | [] \<Rightarrow>
            (case st_decisions st of d # _ \<Rightarrow> ''Decision: '' @ d
             | [] \<Rightarrow>
            (case st_observations st of ob # _ \<Rightarrow> ''Observation: '' @ ob
             | [] \<Rightarrow>
            (case actions of
               Some (a # as) \<Rightarrow> technical_summary step_number (a # as)
             | _ \<Rightarrow> si_action step_info))))
      in (step_info\<lparr>si_action := action_summary, si_thoughts := Some st\<rparr>,
          enhanced_step\<lparr>es_action_summary := action_summary, es_thoughts := Some st\<rparr>))"


section \<open>Raw steps and the outside world\<close>

text \<open>
  A raw step has one of three shapes, tested in this order by
  \<open>save_execution_results\<close>: an object with the attributes \<open>model_output\<close> and
  \<open>result\<close>, a tuple, anything else.

  An item of \<open>model_output.action\<close> is an object whose attributes (\<open>go_to_url\<close>,
  \<open>input_text\<close>, ...) are either falsy (\<open>None\<close> here) or parameter objects, each the
  name of its class with its attributes.
  \<open>ah_action = None\<close> stands for a model output without a truthy \<open>action\<close>,
  \<open>ah_result\<close> for the items of an iterable \<open>result\<close> (empty when it is falsy), and
  \<open>ah_screenshot\<close> for \<open>step.state.screenshot\<close> when both attributes exist.
\<close>

type_synonym action_item = "(string \<times> (string \<times> pyobj) option) list"

text \<open>What a screenshot attribute may hold: bytes, an image object with a \<open>save\<close>
  method, a string, or something else.\<close>

datatype shot = Bytes string | Saveable nat | Text string | Opaque

fun shot_truthy :: "shot \<Rightarrow> bool" where
  "shot_truthy (Bytes b) = (b \<noteq> [])"
| "shot_truthy (Saveable n) = True"
| "shot_truthy (Text t) = (t \<noteq> [])"
| "shot_truthy Opaque = True"

record agent_history =
  ah_action :: "action_item list option"
  ah_result :: "pyobj list"
  ah_screenshot :: "string option"

text \<open>An item of a tuple step: its truth value, its \<open>str\<close> rendering and its
  \<open>screenshot\<close> attribute, if it has one.\<close>

record tuple_item =
  it_truthy :: bool
  it_str :: string
  it_screenshot :: "shot option"

text \<open>Any other object, one that is no tuple and lacks \<open>model_output\<close> or \<open>result\<close>:
  its scalar attributes and its screenshot-like attributes.\<close>

record other_step =
  os_attrs :: pyobj
  os_shots :: "(string \<times> shot) list"

datatype raw_step = AgentHistory agent_history | TupleStep "tuple_item list" | OtherStep other_step

text \<open>
  Base64 decoding and the file system are outside the repository; the normalizer takes
  them as parameters. An operation that raises returns the exception.
\<close>

record env =
  b64decode :: "string \<Rightarrow> error + string"
  write_file :: "string \<Rightarrow> string \<Rightarrow> error option"
  image_save :: "nat \<Rightarrow> string \<Rightarrow> error option"
  path_exists :: "string \<Rightarrow> bool"
  copy_file :: "string \<Rightarrow> string \<Rightarrow> error option"
  write_log :: "string \<Rightarrow> error option"

section \<open>The trace normalizer\<close>

text \<open>The attribute \<open>name\<close> of an action item when it exists and is truthy.\<close>

definition truthy_attr :: "action_item \<Rightarrow> string \<Rightarrow> (string \<times> pyobj) option" where
  "truthy_attr a name = (case map_of a name of Some (Some p) \<Rightarrow> Some p | _ \<Rightarrow> None)"

text \<open>\<open>{"k1": p.k1, ...}\<close>: the reads happen left to right and the first missing
  attribute raises.\<close>

fun read_fields :: "string \<times> pyobj \<Rightarrow> string list \<Rightarrow> error + pyobj" where
  "read_fields p [] = Inr []"
| "read_fields p (k # ks) =
     bind_err (getattr (fst p) (snd p) k)
       (\<lambda>v. bind_err (read_fields p ks) (\<lambda>rest. Inr ((k, v) # rest)))"

text \<open>The recognized action shapes, in the order of the \<open>if\<close>/\<open>elif\<close> chain:
  attribute, type tag, fields read.\<close>

definition action_shapes :: "(string \<times> string \<times> string list) list" where
  "action_shapes =
     [(''go_to_url'', ''navigate'', [''url'']),
      (''input_text'', ''input'', [''text'', ''index'']),
      (''click_element_by_index'', ''click'', [''index'']),
      (''log_action'', ''log_action'', [''message'']),
      (''log_observation'', ''log_observation'', [''message'']),
      (''log_decision'', ''log_decision'', [''message'']),
      (''done'', ''done'', [''text'', ''success'']),
      (''extract_content'', ''extract_content'', [''goal'']),
      (''take_screenshot_now'', ''screenshot'', [''description''])]"

fun classify_action :: "(string \<times> string \<times> string list) list \<Rightarrow> action_item \<Rightarrow> error + action" where
  "classify_action [] a = Inr \<lparr>a_type = ''unknown'', a_details = []\<rparr>"
| "classify_action ((attr, tag, ks) # shapes) a =
     (case truthy_attr a attr of
        Some p \<Rightarrow> bind_err (read_fields p ks) (\<lambda>d. Inr \<lparr>a_type = tag, a_details = d\<rparr>)
      | None \<Rightarrow> classify_action shapes a)"

fun map_err :: "('a \<Rightarrow> error + 'b) \<Rightarrow> 'a list \<Rightarrow> error + 'b list" where
  "map_err f [] = Inr []"
| "map_err f (x # xs) = bind_err (f x) (\<lambda>y. bind_err (map_err f xs) (\<lambda>ys. Inr (y # ys)))"

definition extract_actions :: "action_item list option \<Rightarrow> error + action list" where
  "extract_actions acts =
     (case acts of None \<Rightarrow> Inr [] | Some items \<Rightarrow> map_err (classify_action action_shapes) items)"

definition extract_results :: "pyobj list \<Rightarrow> result_item list" where
  "extract_results rs =
     map (\<lambda>ar. \<lparr>r_content = getattr_default ar ''extracted_content'' VNone,
                r_is_done = getattr_default ar ''is_done'' (VBool False),
                r_success = getattr_default ar ''success'' VNone,
                r_error = getattr_default ar ''error'' VNone\<rparr>)
       (filter (\<lambda>ar. map_of ar ''extracted_content'' \<noteq> None) rs)"

text \<open>File name, path and URL of the screenshot of step \<open>i + 1\<close>.\<close>

definition screenshot_filename :: "string \<Rightarrow> nat \<Rightarrow> string \<Rightarrow> string" where
  "screenshot_filename task_id i timestamp =
     task_id @ ''_step_'' @ show_nat (i + 1) @ ''_'' @ timestamp @ ''.png''"

definition screenshot_path :: "string \<Rightarrow> string" where
  "screenshot_path filename = ''operation_logs/screenshots/'' @ filename"

definition screenshot_url :: "string \<Rightarrow> string" where
  "screenshot_url filename = ''/screenshots/'' @ filename"

text \<open>The five assignments that follow a persisted screenshot.\<close>

definition attach_screenshot ::
  "string \<Rightarrow> step_info \<times> enhanced_step \<times> results \<Rightarrow> step_info \<times> enhanced_step \<times> results" where
  "attach_screenshot filename st =
     (case st of (si, es, res) \<Rightarrow>
        (si\<lparr>si_screenshot := Some (screenshot_path filename),
            si_screenshot_url := Some (screenshot_url filename)\<rparr>,
         es\<lparr>es_screenshot_url := Some (screenshot_url filename)\<rparr>,
         res\<lparr>res_screenshots := res_screenshots res @ [screenshot_path filename],
             res_screenshot_urls := res_screenshot_urls res @ [screenshot_url filename]\<rparr>))"

definition note_error ::
  "string \<Rightarrow> error \<Rightarrow> step_info \<times> enhanced_step \<times> results \<Rightarrow> step_info \<times> enhanced_step \<times> results" where
  "note_error label e st =
     (case st of (si, es, res) \<Rightarrow>
        (si, es\<lparr>es_errors := es_errors es @ [label @ error_str e]\<rparr>, res))"

definition save_b64 :: "env \<Rightarrow> string \<Rightarrow> string \<Rightarrow> error option" where
  "save_b64 env path data =
     (case b64decode env data of Inl e \<Rightarrow> Some e | Inr bytes \<Rightarrow> write_file env path bytes)"

text \<open>The body of the \<open>try\<close> of the tuple branch, up to the assignments.\<close>

fun persist_tuple :: "env \<Rightarrow> string \<Rightarrow> shot \<Rightarrow> error option" where
  "persist_tuple env path (Bytes b) = write_file env path b"
| "persist_tuple env path (Saveable n) = image_save env n path"
| "persist_tuple env path _ = None"

text \<open>\<open>header, data = s.split(',', 1)\<close>\<close>

definition split_comma :: "string \<Rightarrow> error + string \<times> string" where
  "split_comma s =
     (if CHR '','' \<in> set s
      then Inr (takeWhile (\<lambda>c. c \<noteq> CHR '','') s, drop 1 (dropWhile (\<lambda>c. c \<noteq> CHR '','') s))
      else Inl (ValueError ''not enough values to unpack (expected 2, got 1)''))"

text \<open>The body of the \<open>try\<close> of the last branch, up to the assignments.\<close>

fun persist_other :: "env \<Rightarrow> string \<Rightarrow> shot \<Rightarrow> error option" where
  "persist_other env path (Bytes b) = write_file env path b"
| "persist_other env path (Saveable n) = image_save env n path"
| "persist_other env path (Text t) =
     (if prefix ''http'' t \<or> prefix ''/'' t \<or> prefix ''data:'' t then
        (if prefix ''data:image'' t then
           (case split_comma t of Inl e \<Rightarrow> Some e | Inr (header, data) \<Rightarrow> save_b64 env path data)
         else if prefix ''/'' t \<and> path_exists env t then copy_file env t path
         else None)
      else None)"
| "persist_other env path Opaque = None"


text \<open>The two dictionaries as the loop body creates them for step \<open>i + 1\<close>.\<close>

definition init_step_info :: "nat \<Rightarrow> step_info" where
  "init_step_info i =
     \<lparr>si_step_number = i + 1, si_action = ''N/A'', si_result = ''N/A'', si_screenshot = None,
      si_screenshot_url = None, si_action_type = ''unknown'', si_success = False,
      si_actions = None, si_results = None, si_thoughts = None\<rparr>"

definition init_enhanced_step :: "nat \<Rightarrow> enhanced_step" where
  "init_enhanced_step i =
     \<lparr>es_step_number = i + 1, es_action_summary = ''Unknown action'', es_actions = None,
      es_detail_actions = None, es_result_summary = ''No result available'',
      es_detail_results = None, es_action_type = ''unknown'', es_success_status = ''unknown'',
      es_screenshot_url = None, es_errors = [], es_thoughts = None\<rparr>"

text \<open>
  The branch for objects with \<open>model_output\<close> and \<open>result\<close>, in three parts: the two
  \<open>update\<close> calls, the screenshot, and the whole. Reading the fields of an action is
  outside every inner \<open>try\<close>, so an exception there leaves the loop.
\<close>

definition agent_history_update ::
  "nat \<Rightarrow> action list \<Rightarrow> result_item list \<Rightarrow> step_info \<times> enhanced_step
     \<Rightarrow> step_info \<times> enhanced_step" where
  "agent_history_update i actions results_data st =
     (case st of (step_info, enhanced_step) \<Rightarrow>
      let summary = ''Step '' @ show_nat (i + 1) @ '': '' @ join '', '' (map a_type actions);
          action_type = (case actions of [] \<Rightarrow> ''unknown'' | a # _ \<Rightarrow> a_type a);
          success = (if results_data \<noteq> []
                     then list_all (\<lambda>r. py_truthy (r_success r)) results_data else True)
      in (step_info\<lparr>si_action := summary,
            si_result := ''Results: '' @ show_nat (length results_data) @ '' actions completed'',
            si_actions := Some actions, si_results := Some results_data,
            si_action_type := action_type, si_success := success\<rparr>,
          enhanced_step\<lparr>es_action_summary := summary,
            es_detail_actions := Some actions,
            es_result_summary := ''Completed '' @ show_nat (length results_data) @ '' actions'',
            es_detail_results := Some results_data, es_action_type := action_type,
            es_success_status := (if success then ''success'' else ''failed'')\<rparr>))"

definition agent_history_screenshot ::
  "env \<Rightarrow> string \<Rightarrow> string option \<Rightarrow> step_info \<times> enhanced_step \<times> results
     \<Rightarrow> step_info \<times> enhanced_step \<times> results" where
  "agent_history_screenshot env filename screenshot_data st =
     (case screenshot_data of
        None \<Rightarrow> st
      | Some data \<Rightarrow>
          if data = [] then st
          else (case save_b64 env (screenshot_path filename) data of
                  None \<Rightarrow> attach_screenshot filename st
                | Some e \<Rightarrow> note_error ''Screenshot save error: '' e st))"

definition process_agent_history ::
  "env \<Rightarrow> string \<Rightarrow> string \<Rightarrow> thought list \<Rightarrow> nat \<Rightarrow> agent_history
     \<Rightarrow> step_info \<times> enhanced_step \<times> results \<Rightarrow> error + step_info \<times> enhanced_step \<times> results" where
  "process_agent_history env task_id timestamp agent_thoughts i ah st =
     (case st of (step_info, enhanced_step, res) \<Rightarrow>
      bind_err (extract_actions (ah_action ah)) (\<lambda>actions.
        let results_data = extract_results (ah_result ah);
            (step_info, enhanced_step) =
              agent_history_update i actions results_data (step_info, enhanced_step);
            (step_info, enhanced_step, res) =
              agent_history_screenshot env (screenshot_filename task_id i timestamp)
                (ah_screenshot ah) (step_info, enhanced_step, res);
            (step_info, enhanced_step) =
              enhance_step_with_thoughts step_info enhanced_step (i + 1) agent_thoughts
                (Some actions)
        in Inr (step_info, enhanced_step, res)))"

text \<open>The screenshot loop of the tuple branch: the first item whose screenshot is
  persisted ends it (\<open>break\<close>), a failure is noted and the loop goes on.\<close>

fun tuple_screenshots ::
  "env \<Rightarrow> string \<Rightarrow> tuple_item list \<Rightarrow> step_info \<times> enhanced_step \<times> results
     \<Rightarrow> step_info \<times> enhanced_step \<times> results" where
  "tuple_screenshots env filename [] st = st"
| "tuple_screenshots env filename (item # items) st =
     (case it_screenshot item of
        None \<Rightarrow> tuple_screenshots env filename items st
      | Some sh \<Rightarrow>
          if \<not> shot_truthy sh then tuple_screenshots env filename items st
          else (case persist_tuple env (screenshot_path filename) sh of
                  None \<Rightarrow> attach_screenshot filename st
                | Some e \<Rightarrow>
                    tuple_screenshots env filename items
                      (note_error ''Screenshot save error: '' e st)))"

definition process_tuple ::
  "env \<Rightarrow> string \<Rightarrow> string \<Rightarrow> thought list \<Rightarrow> nat \<Rightarrow> tuple_item list
     \<Rightarrow> step_info \<times> enhanced_step \<times> results \<Rightarrow> step_info \<times> enhanced_step \<times> results" where
  "process_tuple env task_id timestamp agent_thoughts i items st =
     (case st of (step_info, enhanced_step, res) \<Rightarrow>
      let st =
        (case items of
           x0 # x1 # _ \<Rightarrow>
             let action_data = (if it_truthy x0 then it_str x0 else ''N/A'');
                 result_data = (if it_truthy x1 then it_str x1 else ''N/A'');
                 step_info = step_info\<lparr>si_action := action_data, si_result := result_data\<rparr>;
                 enhanced_step = enhanced_step\<lparr>
                   es_action_summary := extract_action_summary action_data,
                   es_result_summary := extract_result_summary result_data,
                   es_action_type := classify_action_type action_data,
                   es_success_status := determine_success_status result_data\<rparr>
             in (case enhance_step_with_thoughts step_info enhanced_step (i + 1) agent_thoughts None of
                   (step_info, enhanced_step) \<Rightarrow> (step_info, enhanced_step, res))
         | _ \<Rightarrow> (step_info, enhanced_step, res))
      in tuple_screenshots env (screenshot_filename task_id i timestamp) items st)"

text \<open>\<open>for attr in names: if hasattr(step, attr): value = getattr(step, attr);
  if value: ...; break\<close>\<close>

fun first_truthy :: "pyobj \<Rightarrow> string list \<Rightarrow> pyval option" where
  "first_truthy obj [] = None"
| "first_truthy obj (n # ns) =
     (case map_of obj n of
        Some v \<Rightarrow> if py_truthy v then Some v else first_truthy obj ns
      | None \<Rightarrow> first_truthy obj ns)"

fun other_screenshots ::
  "env \<Rightarrow> string \<Rightarrow> (string \<times> shot) list \<Rightarrow> string list \<Rightarrow> step_info \<times> enhanced_step \<times> results
     \<Rightarrow> step_info \<times> enhanced_step \<times> results" where
  "other_screenshots env filename shots [] st = st"
| "other_screenshots env filename shots (attr # attrs) st =
     (case map_of shots attr of
        None \<Rightarrow> other_screenshots env filename shots attrs st
      | Some sh \<Rightarrow>
          if \<not> shot_truthy sh then other_screenshots env filename shots attrs st
          else (case persist_other env (screenshot_path filename) sh of
                  None \<Rightarrow> attach_screenshot filename st
                | Some e \<Rightarrow>
                    other_screenshots env filename shots attrs
                      (note_error ''Screenshot processing error: '' e st)))"

text \<open>The probes for the action and for the result of the last branch.\<close>

definition probe_texts :: "pyobj \<Rightarrow> step_info \<times> enhanced_step \<Rightarrow> step_info \<times> enhanced_step" where
  "probe_texts obj st =
     (case st of (step_info, enhanced_step) \<Rightarrow>
      let (step_info, enhanced_step) =
            (case first_truthy obj [''model_output'', ''action'', ''input'', ''query'', ''tool_calls''] of
               None \<Rightarrow> (step_info, enhanced_step)
             | Some v \<Rightarrow>
                 (step_info\<lparr>si_action := py_str v\<rparr>,
                  enhanced_step\<lparr>es_action_summary := extract_action_summary (py_str v),
                    es_action_type := classify_action_type (py_str v)\<rparr>))
      in (case first_truthy obj [''result'', ''output'', ''response'', ''content''] of
            None \<Rightarrow> (step_info, enhanced_step)
          | Some v \<Rightarrow>
              (step_info\<lparr>si_result := py_str v\<rparr>,
               enhanced_step\<lparr>es_result_summary := extract_result_summary (py_str v),
                 es_success_status := determine_success_status (py_str v)\<rparr>)))"

definition process_other ::
  "env \<Rightarrow> string \<Rightarrow> string \<Rightarrow> nat \<Rightarrow> other_step
     \<Rightarrow> step_info \<times> enhanced_step \<times> results \<Rightarrow> step_info \<times> enhanced_step \<times> results" where
  "process_other env task_id timestamp i step st =
     (case st of (step_info, enhanced_step, res) \<Rightarrow>
      let (step_info, enhanced_step) = probe_texts (os_attrs step) (step_info, enhanced_step)
      in other_screenshots env (screenshot_filename task_id i timestamp) (os_shots step)
           [''screenshot'', ''image'', ''screen_capture'', ''page_screenshot'']
           (step_info, enhanced_step, res))"

text \<open>
  The end of the loop body: the second call of \<open>enhance_step_with_thoughts\<close>, which
  every step reaches, then the two appends.
\<close>

definition append_step ::
  "thought list \<Rightarrow> nat \<Rightarrow> step_info \<times> enhanced_step \<times> results \<Rightarrow> results" where
  "append_step agent_thoughts i st =
     (case st of (step_info, enhanced_step, res) \<Rightarrow>
        (case enhance_step_with_thoughts step_info enhanced_step (i + 1) agent_thoughts None of
           (step_info, enhanced_step) \<Rightarrow>
             res\<lparr>res_execution_steps := res_execution_steps res @ [step_info],
                 res_enhanced_steps := res_enhanced_steps res @ [enhanced_step]\<rparr>))"

text \<open>One pass of the loop body for the step at index \<open>i\<close>.\<close>

definition process_step ::
  "env \<Rightarrow> string \<Rightarrow> string \<Rightarrow> thought list \<Rightarrow> nat \<Rightarrow> raw_step \<Rightarrow> results \<Rightarrow> error + results" where
  "process_step env task_id timestamp agent_thoughts i step res =
     (let st0 = (init_step_info i, init_enhanced_step i, res) in
      bind_err
        (case step of
           AgentHistory ah \<Rightarrow> process_agent_history env task_id timestamp agent_thoughts i ah st0
         | TupleStep items \<Rightarrow> Inr (process_tuple env task_id timestamp agent_thoughts i items st0)
         | OtherStep obj \<Rightarrow> Inr (process_other env task_id timestamp i obj st0))
        (\<lambda>st. Inr (append_step agent_thoughts i st)))"

text \<open>\<open>for i, step in enumerate(history_list)\<close>, from index \<open>i\<close> on. An exception
  leaves the loop with the dictionary as it is at that moment.\<close>

fun process_steps ::
  "env \<Rightarrow> string \<Rightarrow> string \<Rightarrow> thought list \<Rightarrow> nat \<Rightarrow> raw_step list \<Rightarrow> results
     \<Rightarrow> error \<times> results + results" where
  "process_steps env task_id timestamp agent_thoughts i [] res = Inr res"
| "process_steps env task_id timestamp agent_thoughts i (step # steps) res =
     (case process_step env task_id timestamp agent_thoughts i step res of
        Inl e \<Rightarrow> Inl (e, res)
      | Inr res' \<Rightarrow> process_steps env task_id timestamp agent_thoughts (i + 1) steps res')"

text \<open>
  \<open>BrowserExecutor.save_execution_results\<close>, given the list of raw steps that the
  history holds, the time stamp taken at entry and the thoughts loaded from the log.
  The outer \<open>except\<close> stores the message of an exception in \<open>results["error"]\<close>.
\<close>

definition init_results :: "string \<Rightarrow> thought list \<Rightarrow> results" where
  "init_results task_id agent_thoughts =
     \<lparr>res_task_id = task_id, res_execution_steps = [], res_screenshots = [],
      res_screenshot_urls = [], res_success = False, res_error = None, res_enhanced_steps = [],
      res_agent_thoughts = agent_thoughts, res_log_file = None\<rparr>"

definition normalize_trace ::
  "env \<Rightarrow> string \<Rightarrow> string \<Rightarrow> thought list \<Rightarrow> raw_step list \<Rightarrow> results" where
  "normalize_trace env task_id timestamp agent_thoughts history_list =
     (let res = init_results task_id agent_thoughts in
      if history_list \<noteq> [] then
        (case process_steps env task_id timestamp agent_thoughts 0 history_list res of
           Inl (e, res') \<Rightarrow> res'\<lparr>res_error := Some (error_str e)\<rparr>
         | Inr res' \<Rightarrow> res'\<lparr>res_success := True\<rparr>)
      else res)"

definition save_execution_results ::
  "env \<Rightarrow> string \<Rightarrow> string \<Rightarrow> thought list \<Rightarrow> raw_step list \<Rightarrow> results" where
  "save_execution_results env task_id timestamp agent_thoughts history_list =
     (let res = normalize_trace env task_id timestamp agent_thoughts history_list;
          log_file = ''operation_logs/browser_execution_'' @ task_id @ ''_'' @ timestamp @ ''.json''
      in case write_log env log_file of
           None \<Rightarrow> res\<lparr>res_log_file := Some log_file\<rparr>
         | Some e \<Rightarrow> res\<lparr>res_error := Some (''Error saving results: '' @ error_str e)\<rparr>)"


text \<open>
  The part of \<open>BrowserExecutor.execute_task\<close> that produces the result dictionary.
  \<open>capture_manual_screenshot\<close> returns a path with its URL, or \<open>(None, None)\<close>; the
  test \<open>if initial_screenshot_path\<close> is on the path. \<open>run\<close> is the outcome of
  creating and running the agent: an exception, or the raw steps of the history;
  \<open>closing\<close> is the exception, if any, of closing the browser and writing the session
  summary afterwards. The \<open>except\<close> branch returns a dictionary with empty lists.
\<close>

definition add_manual_screenshot :: "(string \<times> string) option \<Rightarrow> results \<Rightarrow> results" where
  "add_manual_screenshot shot res =
     (case shot of
        Some (path, url) \<Rightarrow>
          if path \<noteq> [] then
            res\<lparr>res_screenshots := res_screenshots res @ [path],
                res_screenshot_urls := res_screenshot_urls res @ [url]\<rparr>
          else res
      | None \<Rightarrow> res)"

definition error_result :: "string \<Rightarrow> error \<Rightarrow> results" where
  "error_result task_id e =
     \<lparr>res_task_id = task_id, res_execution_steps = [], res_screenshots = [],
      res_screenshot_urls = [], res_success = False, res_error = Some (error_str e),
      res_enhanced_steps = [], res_agent_thoughts = [], res_log_file = None\<rparr>"

definition execute_task ::
  "env \<Rightarrow> string \<Rightarrow> string \<Rightarrow> thought list \<Rightarrow> (string \<times> string) option
     \<Rightarrow> (string \<times> string) option \<Rightarrow> error + raw_step list \<Rightarrow> error option \<Rightarrow> results" where
  "execute_task env task_id timestamp agent_thoughts initial_screenshot final_screenshot run
     closing =
     (case run of
        Inl e \<Rightarrow> error_result task_id e
      | Inr history \<Rightarrow>
          let results =
                add_manual_screenshot final_screenshot
                  (add_manual_screenshot initial_screenshot
                     (save_execution_results env task_id timestamp agent_thoughts history))
          in (case closing of Some e \<Rightarrow> error_result task_id e | None \<Rightarrow> results))"


section \<open>The compliance analyzer\<close>

text \<open>
  \<open>analyze_results_direct\<close> reads the result dictionary of the normalizer and the
  original instructions. The clock, the directory creation, \<open>urlparse\<close> and the
  write of the report are outside the repository and are parameters. The keys
  \<open>original_instructions\<close> and \<open>detailed_analysis\<close> of the report, which copy their
  input, are left out.
\<close>

record instructions =
  target_url :: string
  task_description :: string
  screenshot_instructions :: "(string \<times> string) list"

record analysis_env =
  clock_stamp :: string
  clock_iso :: string
  mkdir :: "error option"
  netloc :: "string \<Rightarrow> error + string"
  write_report :: "string \<Rightarrow> error option"

record execution_summary =
  sum_success :: bool
  sum_steps_completed :: nat
  sum_screenshots_captured :: nat
  sum_error :: "string option"

record screenshot_compliance =
  sc_required :: nat
  sc_captured :: nat
  sc_meets_requirements :: bool

record review_report =
  rep_task_id :: string
  rep_timestamp :: string
  rep_execution_summary :: execution_summary
  rep_target_url_accessed :: bool
  rep_screenshots_captured :: screenshot_compliance
  rep_recommendations :: "string list"
  rep_review_file :: "string option"
  rep_error :: "string option"

text \<open>\<open>s.rstrip("/")\<close>\<close>

definition rstrip_slash :: "string \<Rightarrow> string" where
  "rstrip_slash s = rev (dropWhile (\<lambda>c. c = CHR ''/'') (rev s))"

text \<open>A loop that sets a flag and leaves at the first hit; a test that raises ends it.\<close>

fun any_err :: "('a \<Rightarrow> error + bool) \<Rightarrow> 'a list \<Rightarrow> error + bool" where
  "any_err f [] = Inr False"
| "any_err f (x # xs) =
     (case f x of Inl e \<Rightarrow> Inl e | Inr b \<Rightarrow> if b then Inr True else any_err f xs)"

text \<open>\<open>action.get("type") == "navigate" and
  action.get("details", {}).get("url", "").startswith(target_url.rstrip("/"))\<close>:
  a URL that is not a string has no \<open>startswith\<close>.\<close>

definition navigates_to :: "string \<Rightarrow> action \<Rightarrow> error + bool" where
  "navigates_to target a =
     (if a_type a = ''navigate'' then
        (case getattr_default (a_details a) ''url'' (VStr []) of
           VStr u \<Rightarrow> Inr (prefix (rstrip_slash target) u)
         | v \<Rightarrow> Inl (AttributeError (py_type_name v) ''startswith''))
      else Inr False)"

text \<open>Method 1: navigation actions of the enhanced steps.\<close>

definition method1 :: "string \<Rightarrow> enhanced_step list \<Rightarrow> error + bool" where
  "method1 target enhanced_steps =
     any_err (\<lambda>step. case es_actions step of
                        None \<Rightarrow> Inr False
                      | Some as \<Rightarrow> any_err (navigates_to target) as) enhanced_steps"

text \<open>Method 2: navigation actions embedded in the execution steps.\<close>

definition method2 :: "string \<Rightarrow> step_info list \<Rightarrow> error + bool" where
  "method2 target execution_steps =
     any_err (\<lambda>step. case si_actions step of
                        None \<Rightarrow> Inr False
                      | Some as \<Rightarrow> any_err (navigates_to target) as) execution_steps"

text \<open>Method 3: result contents. A content that is not a string has no \<open>lower\<close>.\<close>

definition content_hit :: "string \<Rightarrow> result_item \<Rightarrow> error + bool" where
  "content_hit target r =
     (case r_content r of
        VStr content \<Rightarrow>
          Inr (sublist ''navigated to'' (lower content) \<and> sublist (lower target) (lower content))
      | v \<Rightarrow> Inl (AttributeError (py_type_name v) ''lower''))"

definition method3 :: "string \<Rightarrow> step_info list \<Rightarrow> error + bool" where
  "method3 target execution_steps =
     any_err (\<lambda>step. case si_results step of
                        None \<Rightarrow> Inr False
                      | Some rs \<Rightarrow> any_err (content_hit target) rs) execution_steps"

text \<open>Method 4: navigation patterns in the action and result texts.\<close>

definition method4 :: "string \<Rightarrow> step_info list \<Rightarrow> bool" where
  "method4 target execution_steps =
     list_ex (\<lambda>step.
        let action_text = lower (si_action step); result_text = lower (si_result step) in
        sublist ''navigate'' action_text \<or> sublist ''goto'' action_text
        \<or> sublist (lower target) action_text
        \<or> sublist ''navigated to'' result_text
        \<or> sublist (lower target) result_text) execution_steps"

text \<open>Method 5: the domain of the target; a failure of \<open>urlparse\<close> skips it.\<close>

definition method5 :: "analysis_env \<Rightarrow> string \<Rightarrow> step_info list \<Rightarrow> bool" where
  "method5 env target execution_steps =
     (case netloc env target of
        Inl e \<Rightarrow> False
      | Inr domain \<Rightarrow>
          list_ex (\<lambda>step. sublist (lower domain) (lower (si_action step @ '' '' @ si_result step)))
            execution_steps)"

definition url_access_detection :: "analysis_env \<Rightarrow> results \<Rightarrow> string \<Rightarrow> error + bool" where
  "url_access_detection env execution_results target =
     (let execution_steps = res_execution_steps execution_results in
      bind_err (method1 target (res_enhanced_steps execution_results)) (\<lambda>url_accessed.
      bind_err (if \<not> url_accessed then method2 target execution_steps else Inr url_accessed)
        (\<lambda>url_accessed.
      bind_err (if \<not> url_accessed then method3 target execution_steps else Inr url_accessed)
        (\<lambda>url_accessed.
      let url_accessed = (if \<not> url_accessed then method4 target execution_steps else url_accessed);
          url_accessed = (if \<not> url_accessed \<and> target \<noteq> []
                          then method5 env target execution_steps else url_accessed)
      in Inr url_accessed))))"

text \<open>The dictionary \<open>compliance_check["screenshots_captured"]\<close>.\<close>

definition check_screenshots :: "results \<Rightarrow> instructions \<Rightarrow> screenshot_compliance" where
  "check_screenshots execution_results original_instructions =
     (let required_screenshots = screenshot_instructions original_instructions;
          captured_screenshots = res_screenshots execution_results
      in \<lparr>sc_required = length required_screenshots,
          sc_captured = length captured_screenshots,
          sc_meets_requirements =
            (if required_screenshots \<noteq> []
             then length captured_screenshots \<ge> length required_screenshots else True)\<rparr>)"

text \<open>The recommendations, appended in the order of the source.\<close>

definition recommend :: "results \<Rightarrow> instructions \<Rightarrow> bool \<Rightarrow> string list" where
  "recommend execution_results original_instructions url_accessed =
     (let target = target_url original_instructions;
          required_screenshots = screenshot_instructions original_instructions;
          captured_screenshots = res_screenshots execution_results;
          recs = [];
          recs = (if \<not> res_success execution_results
                  then recs @ [''Task execution failed - check error logs''] else recs);
          recs = (if \<not> url_accessed
                  then recs @ [''Target URL '' @ target @ '' may not have been properly accessed'']
                  else recs);
          recs = (if required_screenshots \<noteq> []
                     \<and> length captured_screenshots < length required_screenshots
                  then recs @ [''Not all required screenshots were captured''] else recs)
      in if res_success execution_results then
           let recs = (if url_accessed
                       then recs @ [''Task appears to have completed successfully'']
                                 @ [''Target URL '' @ target @ '' was successfully accessed'']
                       else recs);
               recs = (if captured_screenshots \<noteq> []
                       then recs @ [''Successfully captured ''
                                     @ show_nat (length captured_screenshots) @ '' screenshots'']
                       else recs);
               steps_count = length (res_execution_steps execution_results)
           in if steps_count > 0
              then recs @ [''Completed '' @ show_nat steps_count @ '' execution steps'']
              else recs
         else recs)"

definition analyze_results_direct ::
  "analysis_env \<Rightarrow> results \<Rightarrow> instructions \<Rightarrow> error + review_report" where
  "analyze_results_direct env execution_results original_instructions =
     (let task_id = res_task_id execution_results in
      case mkdir env of
        Some e \<Rightarrow> Inl e
      | None \<Rightarrow>
          bind_err (url_access_detection env execution_results (target_url original_instructions))
            (\<lambda>url_accessed.
             let review_report =
                   \<lparr>rep_task_id = task_id, rep_timestamp = clock_iso env,
                    rep_execution_summary =
                      \<lparr>sum_success = res_success execution_results,
                       sum_steps_completed = length (res_execution_steps execution_results),
                       sum_screenshots_captured = length (res_screenshots execution_results),
                       sum_error = res_error execution_results\<rparr>,
                    rep_target_url_accessed = url_accessed,
                    rep_screenshots_captured =
                      check_screenshots execution_results original_instructions,
                    rep_recommendations =
                      recommend execution_results original_instructions url_accessed,
                    rep_review_file = None, rep_error = None\<rparr>;
                 review_file =
                   ''operation_logs/review_report_'' @ task_id @ ''_'' @ clock_stamp env @ ''.json''
             in case write_report env review_file of
                  None \<Rightarrow> Inr (review_report\<lparr>rep_review_file := Some review_file\<rparr>)
                | Some e \<Rightarrow>
                    Inr (review_report\<lparr>rep_error :=
                           Some (''Error saving review report: '' @ error_str e)\<rparr>)))"


text \<open>
  The \<open>ComplianceReport\<close> of the specification: the verdict on the URL, the verdict
  on the screenshots, the recommendations and the execution summary of a report.
\<close>

record compliance_report =
  cr_target_url_accessed :: bool
  cr_screenshot_compliance :: screenshot_compliance
  cr_recommendations :: "string list"
  cr_execution_summary :: execution_summary

definition compliance_report_of :: "review_report \<Rightarrow> compliance_report" where
  "compliance_report_of rep =
     \<lparr>cr_target_url_accessed = rep_target_url_accessed rep,
      cr_screenshot_compliance = rep_screenshots_captured rep,
      cr_recommendations = rep_recommendations rep,
      cr_execution_summary = rep_execution_summary rep\<rparr>"


section \<open>The analysis endpoint and the narrative fallback\<close>

text \<open>
  \<open>analyze_results_endpoint\<close>. The inner \<open>try\<close> block, which builds the client of the
  language model, runs the prompt and extracts a usable text from the response or
  raises, is the parameter \<open>enrich\<close>: it maps the prompt to the text or to the
  exception. The bullet of the narrative is carried as its three UTF-8 bytes.
\<close>

definition nl :: string where
  "nl = [CHR 0x0A]"

definition bullet :: string where
  "bullet = [CHR 0xE2, CHR 0x80, CHR 0xA2]"

definition py_bool :: "bool \<Rightarrow> string" where
  "py_bool b = (if b then ''True'' else ''False'')"

definition build_prompt ::
  "string \<Rightarrow> string \<Rightarrow> bool \<Rightarrow> nat \<Rightarrow> nat \<Rightarrow> string option \<Rightarrow> bool \<Rightarrow> string list \<Rightarrow> string" where
  "build_prompt target task_desc task_success steps_count screenshots_count task_error
     url_accessed recommendations =
     join nl
       [''You are a website testing analysis expert. Analyze this browser automation test:'',
        [],
        ''TEST OVERVIEW:'',
        ''- Target URL: '' @ target,
        ''- Task: '' @ take 200 task_desc @ ''...'',
        ''- Success: '' @ py_bool task_success,
        ''- Steps Completed: '' @ show_nat steps_count,
        ''- Screenshots Captured: '' @ show_nat screenshots_count,
        ''- Error: '' @ (case task_error of None \<Rightarrow> ''None'' | Some e \<Rightarrow> e),
        ''- Target URL Accessed: '' @ py_bool url_accessed,
        [],
        ''KEY FINDINGS:'',
        join nl (map (\<lambda>rec. ''- '' @ rec) (take 5 recommendations)),
        [],
        ''Provide a comprehensive analysis with:'',
        ''1. **Executive Summary** (2-3 sentences)'',
        ''2. **Key Findings** (bullet points)'',
        ''3. **Recommendations** (actionable items)'',
        ''4. **Compliance Status** (Pass/Fail assessment)'',
        [],
        ''Keep response clear and actionable.'']"

text \<open>The text of the \<open>except Exception as portia_error\<close> branch.\<close>

definition fallback_narrative :: "bool \<Rightarrow> nat \<Rightarrow> nat \<Rightarrow> bool \<Rightarrow> string list \<Rightarrow> string" where
  "fallback_narrative task_success steps_count screenshots_count url_accessed recommendations =
     join nl
       [''**AI Analysis Report**'',
        [],
        ''**Executive Summary:**'',
        ''The browser automation task ''
          @ (if task_success then ''completed successfully'' else ''encountered issues'')
          @ '' with '' @ show_nat steps_count @ '' execution steps and ''
          @ show_nat screenshots_count @ '' screenshots captured. ''
          @ (if url_accessed then ''The target URL was accessed properly''
             else ''There may have been issues accessing the target URL'') @ ''.'',
        [],
        ''**Key Findings:**'',
        bullet @ '' Task Status: '' @ (if task_success then ''Success'' else ''Failed''),
        bullet @ '' Execution Steps: '' @ show_nat steps_count @ '' completed'',
        bullet @ '' Visual Documentation: '' @ show_nat screenshots_count
          @ '' screenshots captured'',
        bullet @ '' Target URL Access: ''
          @ (if url_accessed then ''Successful'' else ''Failed or incomplete''),
        bullet @ '' Error Status: ''
          @ (if task_success then ''No errors detected''
             else ''Errors occurred during execution''),
        [],
        ''**Recommendations:**'',
        (if recommendations \<noteq> []
         then join nl (map (\<lambda>rec. bullet @ '' '' @ rec) recommendations)
         else bullet @ '' Review execution logs for detailed information'' @ nl
              @ bullet @ '' Check screenshots for visual confirmation'' @ nl
              @ bullet @ '' Verify task completion manually if needed''),
        [],
        ''**Compliance Status:**'',
        bullet @ '' Overall Assessment: ''
          @ (if task_success \<and> url_accessed then ''PASS'' else ''NEEDS REVIEW''),
        bullet @ '' Target URL Compliance: '' @ (if url_accessed then ''PASS'' else ''FAIL''),
        bullet @ '' Task Execution: '' @ (if task_success then ''PASS'' else ''FAIL''),
        [],
        ''---'',
        ''*Note: This analysis was generated using fallback mode due to AI analysis ''
          @ ''system limitations. The task execution results above are still accurate.*'']"

text \<open>The text of the outer \<open>except\<close> branch.\<close>

definition emergency_narrative :: "string \<Rightarrow> results \<Rightarrow> instructions \<Rightarrow> string" where
  "emergency_narrative task_id execution_results original_instructions =
     join nl
       [''**Analysis Report (Fallback Mode)**'',
        [],
        ''**Executive Summary:**'',
        ''Basic analysis completed for task '' @ task_id
          @ ''. The system encountered technical difficulties with the advanced AI analysis ''
          @ ''but was able to extract basic information.'',
        [],
        ''**Key Findings:**'',
        ''- Task Status: '' @ py_bool (res_success execution_results),
        ''- Steps Executed: '' @ show_nat (length (res_execution_steps execution_results)),
        ''- Screenshots: '' @ show_nat (length (res_screenshots execution_results)),
        ''- Target URL: '' @ target_url original_instructions,
        [],
        ''**Recommendations:**'',
        ''- Review the detailed execution logs for more information'',
        ''- Check system configuration if analysis continues to fail'',
        ''- Contact support if issues persist'',
        [],
        ''**Compliance Status:**'',
        ''Unable to perform full compliance check due to technical issues.'']"

datatype http_error = HTTPException nat string

record analysis_result =
  an_task_id :: string
  an_analysis_content :: string
  an_detailed_analysis :: "review_report option"
  an_analysis_method :: string

text \<open>An entry of \<open>task_storage\<close>.\<close>

record task_info =
  ti_status :: string
  ti_results :: results
  ti_instructions :: instructions
  ti_analysis :: "analysis_result option"

text \<open>The values the endpoint reads from its two inputs and from the report, and the
  prompt it builds from them.\<close>

definition analysis_prompt :: "results \<Rightarrow> instructions \<Rightarrow> review_report \<Rightarrow> string" where
  "analysis_prompt execution_results original_instructions analysis_result_data =
     (let task_success = res_success execution_results;
          steps_count = length (res_execution_steps execution_results);
          screenshots_count = length (res_screenshots execution_results);
          task_error = res_error execution_results;
          target = target_url original_instructions;
          task_desc = task_description original_instructions;
          url_accessed = rep_target_url_accessed analysis_result_data;
          recommendations = rep_recommendations analysis_result_data
      in build_prompt target task_desc task_success steps_count screenshots_count task_error
           url_accessed recommendations)"

text \<open>
  The field \<open>analysis_method\<close> is computed by the test
  \<open>'portia_error' not in locals()\<close>, so the model follows the local names. Those below
  are bound when the inner \<open>try\<close> is entered. A clause \<open>except Exception as name\<close> binds
  the name while it runs and deletes it when it ends.
\<close>

definition names_before_enrichment :: "string list" where
  "names_before_enrichment =
     [''task_id'', ''task_info'', ''execution_results'', ''original_instructions'',
      ''analysis_result_data'', ''task_success'', ''steps_count'', ''screenshots_count'',
      ''task_error'', ''target_url'', ''task_description'', ''url_accessed'',
      ''recommendations'', ''prompt'']"

definition leave_except_clause :: "string \<Rightarrow> string list \<Rightarrow> string list" where
  "leave_except_clause name local_names = removeAll name local_names"

definition analyze_results_endpoint ::
  "analysis_env \<Rightarrow> (string \<Rightarrow> error + string) \<Rightarrow> bool \<Rightarrow> (string \<rightharpoonup> task_info) \<Rightarrow> string
     \<Rightarrow> http_error + analysis_result \<times> (string \<rightharpoonup> task_info)" where
  "analyze_results_endpoint env enrich api_key_set task_storage task_id =
     (case task_storage task_id of
        None \<Rightarrow> Inl (HTTPException 404 ''Task not found'')
      | Some info \<Rightarrow>
          if ti_status info \<noteq> ''completed''
            then Inl (HTTPException 400 ''Task must be completed before analysis'')
          else if \<not> api_key_set then Inl (HTTPException 500 ''GEMINI_API_KEY not configured'')
          else
            let execution_results = ti_results info;
                original_instructions = ti_instructions info;
                analysis_result =
                  (case analyze_results_direct env execution_results original_instructions of
                     Inl e \<Rightarrow>
                       \<lparr>an_task_id = task_id,
                        an_analysis_content =
                          emergency_narrative task_id execution_results original_instructions,
                        an_detailed_analysis = None,
                        an_analysis_method = ''emergency_fallback''\<rparr>
                   | Inr analysis_result_data \<Rightarrow>
                       let local_names = names_before_enrichment;
                           (ai_analysis, local_names) =
                             (case enrich (analysis_prompt execution_results original_instructions
                                             analysis_result_data) of
                                Inr ai_analysis \<Rightarrow> (ai_analysis, ''ai_analysis'' # local_names)
                              | Inl portia_error \<Rightarrow>
                                  let local_names = ''portia_error'' # local_names;
                                      ai_analysis =
                                        fallback_narrative (res_success execution_results)
                                          (length (res_execution_steps execution_results))
                                          (length (res_screenshots execution_results))
                                          (rep_target_url_accessed analysis_result_data)
                                          (rep_recommendations analysis_result_data);
                                      local_names = ''ai_analysis'' # local_names
                                  in (ai_analysis,
                                      leave_except_clause ''portia_error'' local_names))
                       in \<lparr>an_task_id = task_id, an_analysis_content = ai_analysis,
                           an_detailed_analysis = Some analysis_result_data,
                           an_analysis_method =
                             (if ''portia_error'' \<notin> set local_names then ''portia''
                              else ''fallback'')\<rparr>)
            in Inr (analysis_result,
                    task_storage(task_id \<mapsto> info\<lparr>ti_analysis := Some analysis_result\<rparr>)))"

section \<open>Example inputs\<close>

text \<open>An outside world in which every operation succeeds, and one in which no file
  can be written.\<close>

definition env_ok :: env where
  "env_ok = \<lparr>b64decode = (\<lambda>s. Inr s), write_file = (\<lambda>p b. None), image_save = (\<lambda>n p. None),
     path_exists = (\<lambda>p. True), copy_file = (\<lambda>a b. None), write_log = (\<lambda>p. None)\<rparr>"

definition env_disk_full :: env where
  "env_disk_full =
     env_ok\<lparr>write_file := (\<lambda>p b. Some (OSError ''[Errno 28] No space left on device''))\<rparr>"

text \<open>A step that navigates and carries a screenshot; a step whose \<open>done\<close> action has
  no attribute \<open>success\<close>; an object with none of the probed attributes.\<close>

definition navigate_history :: agent_history where
  "navigate_history =
     \<lparr>ah_action =
        Some [[(''go_to_url'', Some (''GoToUrlAction'', [(''url'', VStr ''https://x.com/'')]))]],
      ah_result = [[(''extracted_content'', VStr ''Navigated to https://x.com/''),
                    (''success'', VBool True)]],
      ah_screenshot = Some ''QUJD''\<rparr>"

definition step_navigate :: raw_step where
  "step_navigate = AgentHistory navigate_history"

definition step_done_without_success :: raw_step where
  "step_done_without_success = AgentHistory
     \<lparr>ah_action =
        Some [[(''go_to_url'', None), (''done'', Some (''DoneAction'', [(''text'', VStr ''ok'')]))]],
      ah_result = [], ah_screenshot = None\<rparr>"

text \<open>A click whose result has an error and no extracted content.\<close>

definition step_click_failed :: raw_step where
  "step_click_failed = AgentHistory
     \<lparr>ah_action =
        Some [[(''click_element_by_index'', Some (''ClickElementAction'', [(''index'', VInt 3)]))]],
      ah_result = [[(''extracted_content'', VNone), (''error'', VStr ''Element not found'')]],
      ah_screenshot = None\<rparr>"

text \<open>A tuple whose third item carries bytes and whose fourth carries an image object;
  a tuple with the bytes only.\<close>

definition tuple_item_of :: "string \<Rightarrow> shot option \<Rightarrow> tuple_item" where
  "tuple_item_of text sh = \<lparr>it_truthy = True, it_str = text, it_screenshot = sh\<rparr>"

definition step_tuple_two_shots :: raw_step where
  "step_tuple_two_shots = TupleStep
     [tuple_item_of ''click the button'' None, tuple_item_of ''clicked'' None,
      tuple_item_of ''state'' (Some (Bytes ''PNG'')), tuple_item_of ''image'' (Some (Saveable 0))]"

definition step_tuple_bytes :: raw_step where
  "step_tuple_bytes = TupleStep
     [tuple_item_of ''click the button'' None, tuple_item_of ''clicked'' None,
      tuple_item_of ''state'' (Some (Bytes ''PNG''))]"

definition step_other_two_shots :: raw_step where
  "step_other_two_shots = OtherStep
     \<lparr>os_attrs = [(''action'', VStr ''scroll down'')],
      os_shots = [(''screenshot'', Bytes ''PNG''), (''image'', Saveable 0)]\<rparr>"

definition step_unrecognized :: raw_step where
  "step_unrecognized = OtherStep \<lparr>os_attrs = [], os_shots = []\<rparr>"

definition six_thoughts :: "thought list" where
  "six_thoughts =
     map (\<lambda>m. \<lparr>th_timestamp = ''2025-01-01 00:00:00'', th_type = ''action'', th_message = m\<rparr>)
       [''thought 0'', ''thought 1'', ''thought 2'', ''thought 3'', ''thought 4'', ''thought 5'']"

text \<open>Two readings of the clock, one second apart.\<close>

definition analysis_env_ok :: analysis_env where
  "analysis_env_ok = \<lparr>clock_stamp = ''20250101_000000'', clock_iso = ''2025-01-01T00:00:00'',
     mkdir = None, netloc = (\<lambda>u. Inr ''x.com''), write_report = (\<lambda>p. None)\<rparr>"

definition analysis_env_later :: analysis_env where
  "analysis_env_later = analysis_env_ok\<lparr>clock_stamp := ''20250101_000001'',
     clock_iso := ''2025-01-01T00:00:01''\<rparr>"

definition plain_step :: "string \<Rightarrow> string \<Rightarrow> step_info" where
  "plain_step a r = (init_step_info 0)\<lparr>si_action := a, si_result := r\<rparr>"

definition results_of :: "step_info list \<Rightarrow> string list \<Rightarrow> bool \<Rightarrow> results" where
  "results_of steps shots ok =
     (init_results ''task_1'' [])\<lparr>res_execution_steps := steps, res_screenshots := shots,
        res_screenshot_urls := shots, res_success := ok\<rparr>"

definition instructions_of :: "string \<Rightarrow> nat \<Rightarrow> instructions" where
  "instructions_of url n =
     \<lparr>target_url = url, task_description = ''open the page'',
      screenshot_instructions = replicate n (''after load'', ''shot.png'')\<rparr>"


definition analysis_env_later_disk_full :: analysis_env where
  "analysis_env_later_disk_full =
     analysis_env_later\<lparr>write_report :=
       (\<lambda>p. Some (OSError ''[Errno 28] No space left on device''))\<rparr>"

text \<open>A store with one completed task, and a language model that cannot be reached.\<close>

definition completed_task :: task_info where
  "completed_task =
     \<lparr>ti_status = ''completed'',
      ti_results = results_of [plain_step ''navigate to https://x.com/'' ''page loaded'']
                     [''a.png'', ''b.png''] True,
      ti_instructions = instructions_of ''https://x.com/'' 0,
      ti_analysis = None\<rparr>"

definition task_storage_one :: "string \<rightharpoonup> task_info" where
  "task_storage_one = [''task_1'' \<mapsto> completed_task]"

definition enrich_unreachable :: "string \<Rightarrow> error + string" where
  "enrich_unreachable prompt = Inl (OSError ''Connection refused'')"

definition enrich_reachable :: "string \<Rightarrow> error + string" where
  "enrich_reachable prompt = Inr ''**Executive Summary** The task met its requirements.''"

section \<open>Predicates used in the proofs about the normalizer\<close>

text \<open>A raw step that the loop body processes without an exception: the only reads
  outside an inner \<open>try\<close> that can fail are those of the fields of an action.\<close>

definition step_ok :: "raw_step \<Rightarrow> bool" where
  "step_ok step =
     (case step of AgentHistory ah \<Rightarrow> \<not> isl (extract_actions (ah_action ah)) | _ \<Rightarrow> True)"

text \<open>The exception that ends the loop: that of the first step whose actions cannot be
  read.\<close>

fun first_error :: "raw_step list \<Rightarrow> error option" where
  "first_error [] = None"
| "first_error (AgentHistory ah # steps) =
     (case extract_actions (ah_action ah) of Inl e \<Rightarrow> Some e | Inr acts \<Rightarrow> first_error steps)"
| "first_error (step # steps) = first_error steps"

text \<open>
  The attempts to persist a screenshot of a step: for each candidate of the step, in
  the order in which the code looks at them, the exception of the \<open>try\<close> body were it
  run on that candidate, or \<open>None\<close> when the body completes. The candidates are the
  non-empty screenshot data of the step state, the truthy \<open>screenshot\<close> attributes of
  the items of a tuple, and the truthy screenshot-like attributes of any other object.
\<close>

definition persistence_attempts :: "env \<Rightarrow> string \<Rightarrow> raw_step \<Rightarrow> error option list" where
  "persistence_attempts env path step =
     (case step of
        AgentHistory ah \<Rightarrow>
          (case ah_screenshot ah of
             None \<Rightarrow> []
           | Some data \<Rightarrow> if data = [] then [] else [save_b64 env path data])
      | TupleStep items \<Rightarrow>
          map (persist_tuple env path) (filter shot_truthy (List.map_filter it_screenshot items))
      | OtherStep obj \<Rightarrow>
          map (persist_other env path)
            (filter shot_truthy
               (List.map_filter (map_of (os_shots obj))
                  [''screenshot'', ''image'', ''screen_capture'', ''page_screenshot''])))"

text \<open>Some attempt completes; the exceptions of the attempts before the first that
  completes.\<close>

fun persisted :: "error option list \<Rightarrow> bool" where
  "persisted [] = False"
| "persisted (None # outcomes) = True"
| "persisted (Some e # outcomes) = persisted outcomes"

fun failures_before_success :: "error option list \<Rightarrow> error list" where
  "failures_before_success [] = []"
| "failures_before_success (None # outcomes) = []"
| "failures_before_success (Some e # outcomes) = e # failures_before_success outcomes"

text \<open>The label of the message that a failed attempt leaves in the \<open>errors\<close> list.\<close>

fun error_label :: "raw_step \<Rightarrow> string" where
  "error_label (OtherStep obj) = ''Screenshot processing error: ''"
| "error_label step = ''Screenshot save error: ''"

text \<open>The two records of a step without what the screenshot handling writes to them:
  the screenshot references and the \<open>errors\<close> list.\<close>

definition info_core :: "step_info \<Rightarrow> step_info" where
  "info_core si = si\<lparr>si_screenshot := None, si_screenshot_url := None\<rparr>"

definition enhanced_core :: "enhanced_step \<Rightarrow> enhanced_step" where
  "enhanced_core es = es\<lparr>es_errors := [], es_screenshot_url := None\<rparr>"

definition state_core :: "step_info \<times> enhanced_step \<times> results \<Rightarrow> step_info \<times> enhanced_step" where
  "state_core st = (case st of (si, es, res) \<Rightarrow> (info_core si, enhanced_core es))"

text \<open>\<open>frame d st st'\<close>: from \<open>st\<close> to \<open>st'\<close> the step numbers and the lists of steps are
  unchanged, and \<open>d\<close> entries were added to each of the two screenshot lists.\<close>

definition frame ::
  "nat \<Rightarrow> step_info \<times> enhanced_step \<times> results \<Rightarrow> step_info \<times> enhanced_step \<times> results \<Rightarrow> bool" where
  "frame d st st' =
     (case st of (si, es, res) \<Rightarrow> case st' of (si', es', res') \<Rightarrow>
        si_step_number si' = si_step_number si \<and> es_step_number es' = es_step_number es
        \<and> res_execution_steps res' = res_execution_steps res
        \<and> res_enhanced_steps res' = res_enhanced_steps res
        \<and> res_error res' = res_error res \<and> res_success res' = res_success res
        \<and> length (res_screenshots res') = length (res_screenshots res) + d
        \<and> length (res_screenshot_urls res') = length (res_screenshot_urls res) + d)"

text \<open>\<open>appended i d res res'\<close>: \<open>res'\<close> is \<open>res\<close> with the two records of step \<open>i + 1\<close>
  appended and \<open>d\<close> entries added to each of the two screenshot lists.\<close>

definition appended :: "nat \<Rightarrow> nat \<Rightarrow> results \<Rightarrow> results \<Rightarrow> bool" where
  "appended i d res res' =
     (res_execution_steps res' = res_execution_steps res @ [last (res_execution_steps res')]
      \<and> si_step_number (last (res_execution_steps res')) = i + 1
      \<and> res_enhanced_steps res' = res_enhanced_steps res @ [last (res_enhanced_steps res')]
      \<and> es_step_number (last (res_enhanced_steps res')) = i + 1
      \<and> res_error res' = res_error res \<and> res_success res' = res_success res
      \<and> length (res_screenshots res') = length (res_screenshots res) + d
      \<and> length (res_screenshot_urls res') = length (res_screenshot_urls res) + d)"

section \<open>Properties of the text classification\<close>

lemma lower_keyword:
  "lower ''success'' = ''success''" "lower ''completed'' = ''completed''"
  "lower ''done'' = ''done''" "lower ''found'' = ''found''"
  by (simp_all add: lower_def lower_char_def)

lemma sublist_lower: "sublist k s \<Longrightarrow> sublist (lower k) (lower s)"
  unfolding lower_def by (rule map_mono_sublist)

lemma success_keyword_wins:
  assumes "sublist k s" and "k \<in> {''success'', ''completed'', ''done'', ''found''}"
  shows "determine_success_status s = ''success''"
proof -
  from assms have len: "4 \<le> length s"
    using sublist_length_le[OF assms(1)] by auto
  then have ne: "s \<noteq> []" "s \<noteq> ''N/A''" by auto
  from assms(2) have "lower k = k" using lower_keyword by auto
  with sublist_lower[OF assms(1)] have "sublist k (lower s)" by simp
  with assms(2) have "any_in [''success'', ''completed'', ''done'', ''found''] (lower s)"
    by (auto simp: any_in_def)
  with ne show ?thesis by (simp add: determine_success_status_def Let_def)
qed

lemma not_found_example: "determine_success_status ''element not found'' = ''success''"
  by (rule success_keyword_wins[where k = "''found''"]) (code_simp, simp)

text \<open>
  C9. \<open>determine_success_status\<close> returns one of the five tags \<open>success\<close>, \<open>failed\<close>,
  \<open>empty\<close>, \<open>completed\<close>, \<open>unknown\<close>. The success keywords are tested first: a text
  that contains \<open>success\<close>, \<open>completed\<close>, \<open>done\<close> or \<open>found\<close> is classified
  \<open>success\<close> whatever else it contains, and so is the input \<open>element not found\<close>.
\<close>

theorem determine_success_status_classes:
  "determine_success_status s \<in> {''success'', ''failed'', ''empty'', ''completed'', ''unknown''}
   \<and> (\<forall>k \<in> {''success'', ''completed'', ''done'', ''found''}.
         sublist k s \<longrightarrow> determine_success_status s = ''success'')
   \<and> determine_success_status ''element not found'' = ''success''"
proof (intro conjI ballI impI)
  show "determine_success_status s \<in> {''success'', ''failed'', ''empty'', ''completed'', ''unknown''}"
    by (simp add: determine_success_status_def Let_def)
next
  fix k assume "k \<in> {''success'', ''completed'', ''done'', ''found''}" "sublist k s"
  then show "determine_success_status s = ''success''" by (rule success_keyword_wins[rotated])
next
  show "determine_success_status ''element not found'' = ''success''" by (rule not_found_example)
qed

text \<open>A text with a failure keyword and a success keyword.\<close>

theorem determine_success_status_classes_witness:
  "sublist ''done'' ''request failed, nothing done''
   \<and> any_in [''failed'', ''error'', ''exception'', ''timeout'', ''not found'']
         (lower ''request failed, nothing done'')
   \<and> determine_success_status ''request failed, nothing done'' = ''success''"
proof -
  have h: "sublist ''done'' ''request failed, nothing done''" by code_simp
  have f: "any_in [''failed'', ''error'', ''exception'', ''timeout'', ''not found'']
             (lower ''request failed, nothing done'')" by code_simp
  from determine_success_status_classes[of "''request failed, nothing done''"] h f
  show ?thesis by simp
qed


section \<open>Properties of the compliance analyzer\<close>

lemma analyze_Inr_fields:
  assumes "analyze_results_direct env er oi = Inr rep"
  shows "rep_screenshots_captured rep = check_screenshots er oi"
    and "rep_recommendations rep = recommend er oi (rep_target_url_accessed rep)"
    and "url_access_detection env er (target_url oi) = Inr (rep_target_url_accessed rep)"
    and "rep_execution_summary rep =
           \<lparr>sum_success = res_success er, sum_steps_completed = length (res_execution_steps er),
            sum_screenshots_captured = length (res_screenshots er), sum_error = res_error er\<rparr>"
  using assms
  by (auto simp: analyze_results_direct_def bind_err_def Let_def
           split: option.splits sum.splits)

lemma show_nat_digits: "show_nat 1 = ''1''" "show_nat 5 = ''5''"
  by code_simp+

text \<open>
  C5, as amended. The recommendations are, in this order: the failure message when
  success is false; the message that the target URL may not have been accessed when it
  was not; the message on missing screenshots when fewer were captured than required;
  and, when success is true, the success confirmation together with the URL-success
  message when the URL was accessed (both or neither), the screenshot count when a
  screenshot was captured, the step count when a step ran. A successful run with the
  URL accessed, five screenshots and none required starts with three positive entries
  and has none of the three negative ones.
\<close>

theorem recommendations_order:
  assumes "analyze_results_direct env er oi = Inr rep"
  shows "rep_recommendations rep =
     (if \<not> res_success er then [''Task execution failed - check error logs''] else [])
     @ (if \<not> rep_target_url_accessed rep
        then [''Target URL '' @ target_url oi @ '' may not have been properly accessed''] else [])
     @ (if length (res_screenshots er) < length (screenshot_instructions oi)
        then [''Not all required screenshots were captured''] else [])
     @ (if res_success er then
          (if rep_target_url_accessed rep
           then [''Task appears to have completed successfully'',
                 ''Target URL '' @ target_url oi @ '' was successfully accessed''] else [])
          @ (if res_screenshots er \<noteq> []
             then [''Successfully captured '' @ show_nat (length (res_screenshots er))
                     @ '' screenshots''] else [])
          @ (if res_execution_steps er \<noteq> []
             then [''Completed '' @ show_nat (length (res_execution_steps er))
                     @ '' execution steps''] else [])
        else [])
   \<and> (res_success er \<and> rep_target_url_accessed rep \<and> length (res_screenshots er) = 5
        \<and> screenshot_instructions oi = [] \<longrightarrow>
        take 3 (rep_recommendations rep) =
          [''Task appears to have completed successfully'',
           ''Target URL '' @ target_url oi @ '' was successfully accessed'',
           ''Successfully captured 5 screenshots'']
        \<and> ''Task execution failed - check error logs'' \<notin> set (rep_recommendations rep)
        \<and> ''Target URL '' @ target_url oi @ '' may not have been properly accessed''
             \<notin> set (rep_recommendations rep)
        \<and> ''Not all required screenshots were captured'' \<notin> set (rep_recommendations rep))"
  using analyze_Inr_fields(2)[OF assms] by (auto simp: recommend_def Let_def show_nat_digits)

text \<open>
  C5 as stated fails: a successful run whose URL access was not detected gets no success
  confirmation; the guard \<open>if url_accessed\<close> covers it.
\<close>

theorem success_message_needs_url_access:
  "res_success (results_of [] [''a.png''] True)
   \<and> map_sum id rep_recommendations
       (analyze_results_direct analysis_env_ok (results_of [] [''a.png''] True)
          (instructions_of ''https://x.com/'' 0))
     = Inr [''Target URL https://x.com/ may not have been properly accessed'',
            ''Successfully captured 1 screenshots'']"
  by code_simp

text \<open>
  C3: with the empty string as target URL and one ordinary step, the analysis reports
  the target as accessed. Method 4 asks whether the target occurs in the action text,
  and the empty string occurs in every text; only method 5 tests that the target is
  not empty.
\<close>

theorem empty_target_url_reported_accessed:
  "target_url (instructions_of [] 0) = []
   \<and> map_sum id rep_target_url_accessed
       (analyze_results_direct analysis_env_ok
          (results_of [plain_step ''click the button'' ''clicked''] [] True) (instructions_of [] 0))
     = Inr True
   \<and> map_sum id rep_recommendations
       (analyze_results_direct analysis_env_ok
          (results_of [plain_step ''click the button'' ''clicked''] [] True) (instructions_of [] 0))
     = Inr [''Task appears to have completed successfully'',
            ''Target URL  was successfully accessed'',
            ''Completed 1 execution steps'']"
  by code_simp

lemma url_access_detection_env:
  "netloc env1 = netloc env2 \<Longrightarrow>
     url_access_detection env1 er t = url_access_detection env2 er t"
proof -
  assume "netloc env1 = netloc env2"
  then have h: "method5 env1 = method5 env2" by (simp add: method5_def fun_eq_iff)
  show ?thesis unfolding url_access_detection_def h by (rule refl)
qed

text \<open>
  The verdict on the URL, the verdict on the screenshots, the recommendations and the
  execution summary are determined by the execution result, the instructions and the
  URL parser: neither the clock nor the outcome of writing the report changes them, nor
  whether the analysis returns.
\<close>

lemma compliance_fields_independent_of_clock:
  assumes "mkdir env1 = mkdir env2" and "netloc env1 = netloc env2"
  shows "map_sum id compliance_report_of (analyze_results_direct env1 er oi)
       = map_sum id compliance_report_of (analyze_results_direct env2 er oi)"
  using assms url_access_detection_env[OF assms(2), of er "target_url oi"]
  by (auto simp: analyze_results_direct_def bind_err_def Let_def compliance_report_of_def
           split: option.splits sum.splits)

text \<open>
  Two runs that differ in the clock and in the outcome of the write: the reports
  differ, the four fields do not.
\<close>

lemma compliance_fields_two_runs:
  "analyze_results_direct analysis_env_ok (results_of [] [''a.png''] True)
       (instructions_of ''https://x.com/'' 0)
     \<noteq> analyze_results_direct analysis_env_later_disk_full (results_of [] [''a.png''] True)
         (instructions_of ''https://x.com/'' 0)
   \<and> map_sum id compliance_report_of
       (analyze_results_direct analysis_env_ok (results_of [] [''a.png''] True)
          (instructions_of ''https://x.com/'' 0))
     = map_sum id compliance_report_of
       (analyze_results_direct analysis_env_later_disk_full (results_of [] [''a.png''] True)
          (instructions_of ''https://x.com/'' 0))
   \<and> \<not> isl (analyze_results_direct analysis_env_ok (results_of [] [''a.png''] True)
          (instructions_of ''https://x.com/'' 0))"
  by code_simp

text \<open>
  C4: the analysis raises on a result of the normalizer. A click whose action result
  carries an error and no extracted content is normalized to a step whose one result has
  the content \<open>None\<close>. Methods 1 and 2 find no navigation to the target, and method 3
  calls \<open>content.lower()\<close> outside every \<open>try\<close>: the default of
  \<open>result.get("content", "")\<close> does not apply to a key that is present with the value
  \<open>None\<close>. The analysis ends with the \<open>AttributeError\<close> and returns no report.
\<close>

theorem analysis_raises_on_missing_content:
  "map (map_option (map r_content) \<circ> si_results)
     (res_execution_steps
        (save_execution_results env_ok ''task_1'' ''20250101_000000'' [] [step_click_failed]))
     = [Some [VNone]]
   \<and> analyze_results_direct analysis_env_ok
       (save_execution_results env_ok ''task_1'' ''20250101_000000'' [] [step_click_failed])
       (instructions_of ''https://x.com/'' 0)
     = Inl (AttributeError ''NoneType'' ''lower'')
   \<and> error_str (AttributeError ''NoneType'' ''lower'')
     = quoted ''NoneType'' @ '' object has no attribute '' @ quoted ''lower''"
  by code_simp

text \<open>
  One step that navigates to the target, five screenshots, none required.
\<close>

theorem recommendations_order_witness:
  "map_sum id rep_recommendations
     (analyze_results_direct analysis_env_ok
        (results_of [plain_step ''navigate to https://x.com/'' ''page loaded'']
           [''1.png'', ''2.png'', ''3.png'', ''4.png'', ''5.png''] True)
        (instructions_of ''https://x.com/'' 0))
   = Inr [''Task appears to have completed successfully'',
          ''Target URL https://x.com/ was successfully accessed'',
          ''Successfully captured 5 screenshots'',
          ''Completed 1 execution steps'']"
proof -
  let ?er = "results_of [plain_step ''navigate to https://x.com/'' ''page loaded'']
           [''1.png'', ''2.png'', ''3.png'', ''4.png'', ''5.png''] True"
  let ?oi = "instructions_of ''https://x.com/'' 0"
  let ?r = "analyze_results_direct analysis_env_ok ?er ?oi"
  have ev: "?r = Inr (projr ?r)" by code_simp
  have acc: "rep_target_url_accessed (projr ?r)" by code_simp
  have f: "res_success ?er" "res_screenshots ?er = [''1.png'', ''2.png'', ''3.png'', ''4.png'', ''5.png'']"
     "length (res_execution_steps ?er) = 1" "screenshot_instructions ?oi = []" "target_url ?oi = ''https://x.com/''"
    by (simp_all add: results_of_def instructions_of_def)
  note s = show_nat_digits
  from recommendations_order[OF ev] acc f s
  have "rep_recommendations (projr ?r) = [''Task appears to have completed successfully'',
          ''Target URL https://x.com/ was successfully accessed'',
          ''Successfully captured 5 screenshots'',
          ''Completed 1 execution steps'']"
    by auto
  then show ?thesis by (subst ev) simp
qed


text \<open>
  C7. The report's screenshot verdict: \<open>meets_requirements\<close> is \<open>captured \<ge> required\<close>
  when a screenshot is required and true when none is; so it is true for
  \<open>required = 0\<close>, false for \<open>required = 3\<close> and \<open>captured = 2\<close>, true for
  \<open>required = 3\<close> and \<open>captured = 3\<close>.
\<close>

theorem screenshot_compliance_rule:
  assumes "analyze_results_direct env er oi = Inr rep"
  shows "sc_required (rep_screenshots_captured rep) = length (screenshot_instructions oi)
   \<and> sc_captured (rep_screenshots_captured rep) = length (res_screenshots er)
   \<and> sc_meets_requirements (rep_screenshots_captured rep) =
       (if 0 < length (screenshot_instructions oi)
        then length (screenshot_instructions oi) \<le> length (res_screenshots er) else True)
   \<and> (length (screenshot_instructions oi) = 0
        \<longrightarrow> sc_meets_requirements (rep_screenshots_captured rep))
   \<and> (length (screenshot_instructions oi) = 3 \<and> length (res_screenshots er) = 2
        \<longrightarrow> \<not> sc_meets_requirements (rep_screenshots_captured rep))
   \<and> (length (screenshot_instructions oi) = 3 \<and> length (res_screenshots er) = 3
        \<longrightarrow> sc_meets_requirements (rep_screenshots_captured rep))"
  using analyze_Inr_fields(1)[OF assms] by (simp add: check_screenshots_def Let_def)

text \<open>Three screenshots required, two captured.\<close>

theorem screenshot_compliance_rule_witness:
  "map_sum id rep_screenshots_captured
     (analyze_results_direct analysis_env_ok (results_of [] [''a.png'', ''b.png''] True)
        (instructions_of ''https://x.com/'' 3))
   = Inr \<lparr>sc_required = 3, sc_captured = 2, sc_meets_requirements = False\<rparr>"
proof -
  let ?r = "analyze_results_direct analysis_env_ok (results_of [] [''a.png'', ''b.png''] True)
        (instructions_of ''https://x.com/'' 3)"
  have ev: "?r = Inr (projr ?r)" by code_simp
  have l: "length (screenshot_instructions (instructions_of ''https://x.com/'' 3)) = 3"
     "length (res_screenshots (results_of [] [''a.png'', ''b.png''] True)) = 2"
    by (simp_all add: instructions_of_def results_of_def)
  from screenshot_compliance_rule[OF ev] l
  have "rep_screenshots_captured (projr ?r)
          = \<lparr>sc_required = 3, sc_captured = 2, sc_meets_requirements = False\<rparr>"
    by (cases "rep_screenshots_captured (projr ?r)") simp
  then show ?thesis by (subst ev) simp
qed


section \<open>Properties of the analysis endpoint\<close>

lemma sublist_join: "x \<in> set ls \<Longrightarrow> sublist x (join sep ls)"
proof (induction sep ls rule: join.induct)
  case (3 sep a b bs)
  show ?case
  proof (cases "x = a")
    case True
    then show ?thesis by simp
  next
    case False
    with 3 have "sublist x (join sep (b # bs))" by simp
    then show ?thesis by (simp add: sublist_append)
  qed
qed simp_all

lemma sublist_line: "sublist k x \<Longrightarrow> x \<in> set ls \<Longrightarrow> sublist k (join sep ls)"
proof -
  assume "sublist k x" and "x \<in> set ls"
  then obtain p1 s1 p2 s2 where "x = p1 @ k @ s1" and "join sep ls = p2 @ x @ s2"
    using sublist_join[of x ls sep] by (auto simp: sublist_def)
  then have "join sep ls = (p2 @ p1) @ k @ (s1 @ s2)" by simp
  then show ?thesis unfolding sublist_def by blast
qed

lemma sublist_after: "sublist k (p @ c # k)"
proof -
  have "p @ c # k = (p @ [c]) @ k" by simp
  then show ?thesis by (simp only: sublist_append_leftI)
qed

lemma fallback_narrative_mentions:
  "sublist (''Task Status: '' @ (if ok then ''Success'' else ''Failed''))
     (fallback_narrative ok n m acc recs)"
  "sublist (''Execution Steps: '' @ show_nat n @ '' completed'') (fallback_narrative ok n m acc recs)"
  "sublist (''Visual Documentation: '' @ show_nat m @ '' screenshots captured'')
     (fallback_narrative ok n m acc recs)"
  unfolding fallback_narrative_def
  subgoal by (rule sublist_line[where x = "bullet @ '' Task Status: '' @ (if ok then ''Success'' else ''Failed'')"]) (simp_all add: sublist_after)
  subgoal by (rule sublist_line[where x = "bullet @ '' Execution Steps: '' @ show_nat n @ '' completed''"]) (simp_all add: sublist_after)
  subgoal by (rule sublist_line[where x = "bullet @ '' Visual Documentation: '' @ show_nat m @ '' screenshots captured''"]) (simp_all add: sublist_after)
  done

lemma fallback_narrative_nonempty: "fallback_narrative ok n m acc recs \<noteq> []"
  by (simp add: fallback_narrative_def)


text \<open>
  When the task is completed, the analysis has returned its report and the enrichment
  raises, the endpoint returns (it raises no HTTP error) the templated narrative built
  from the report: it is not empty and contains the task status, the step count and
  the screenshot count of the report's execution summary. The name \<open>portia_error\<close> is
  no longer bound when the method tag is computed, so the tag is \<open>portia\<close>.
\<close>

lemma fallback_path_result:
  assumes "task_storage task_id = Some info" and "ti_status info = ''completed''"
    and "api_key_set"
    and "analyze_results_direct env (ti_results info) (ti_instructions info) = Inr rep"
    and "enrich (analysis_prompt (ti_results info) (ti_instructions info) rep) = Inl e"
  shows
    "(let summary = rep_execution_summary rep;
          content = fallback_narrative (sum_success summary) (sum_steps_completed summary)
                      (sum_screenshots_captured summary) (rep_target_url_accessed rep)
                      (rep_recommendations rep);
          analysis = \<lparr>an_task_id = task_id, an_analysis_content = content,
                       an_detailed_analysis = Some rep, an_analysis_method = ''portia''\<rparr>
      in analyze_results_endpoint env enrich api_key_set task_storage task_id
           = Inr (analysis, task_storage(task_id \<mapsto> info\<lparr>ti_analysis := Some analysis\<rparr>))
         \<and> content \<noteq> []
         \<and> sublist (''Task Status: '' @ (if sum_success summary then ''Success'' else ''Failed''))
               content
         \<and> sublist (''Execution Steps: '' @ show_nat (sum_steps_completed summary)
                      @ '' completed'') content
         \<and> sublist (''Visual Documentation: '' @ show_nat (sum_screenshots_captured summary)
                      @ '' screenshots captured'') content)"
proof -
  note s = analyze_Inr_fields(4)[OF assms(4)]
  show ?thesis
    unfolding Let_def
    using assms fallback_narrative_mentions fallback_narrative_nonempty
    by (simp add: analyze_results_endpoint_def s Let_def names_before_enrichment_def
          leave_except_clause_def)
qed

text \<open>
  C6: for a completed task with one step and two screenshots and a language model that
  cannot be reached, the endpoint returns the templated narrative with the step count
  and the screenshot count, but tags it \<open>portia\<close>, the tag it also gives to the text of
  the language model when the call succeeds; the tag \<open>fallback\<close> is never given.
\<close>

theorem fallback_narrative_tagged_portia:
  "map_sum id (an_analysis_method \<circ> fst)
     (analyze_results_endpoint analysis_env_ok enrich_unreachable True task_storage_one ''task_1'')
   = Inr ''portia''
   \<and> map_sum id (an_analysis_method \<circ> fst)
     (analyze_results_endpoint analysis_env_ok enrich_reachable True task_storage_one ''task_1'')
   = Inr ''portia''
   \<and> map_sum id (an_analysis_content \<circ> fst)
     (analyze_results_endpoint analysis_env_ok enrich_unreachable True task_storage_one ''task_1'')
   = Inr (fallback_narrative True 1 2 True
            [''Task appears to have completed successfully'',
             ''Target URL https://x.com/ was successfully accessed'',
             ''Successfully captured 2 screenshots'',
             ''Completed 1 execution steps''])
   \<and> sublist ''Execution Steps: 1 completed''
       (fallback_narrative True 1 2 True
            [''Task appears to have completed successfully'',
             ''Target URL https://x.com/ was successfully accessed'',
             ''Successfully captured 2 screenshots'',
             ''Completed 1 execution steps''])"
  by code_simp

section \<open>Properties of the natural-language enrichment\<close>

lemma foldl_add_thought:
  "foldl add_thought st ts =
     \<lparr>st_actions = st_actions st @ map th_message (filter (\<lambda>t. th_type t = ''action'') ts),
      st_observations =
        st_observations st @ map th_message (filter (\<lambda>t. th_type t = ''observation'') ts),
      st_decisions =
        st_decisions st @ map th_message (filter (\<lambda>t. th_type t = ''decision'') ts)\<rparr>"
  by (induction ts arbitrary: st) (auto simp: add_thought_def)

lemma py_slice_clipped: "py_slice xs a (min (length xs) (a + n)) = take n (drop a xs)"
  by (cases "a \<le> length xs") (simp_all add: py_slice_def min_def)

lemma thought_window_eq:
  assumes "0 < k"
  shows "thought_window ts k =
           take (max 1 (length ts div k) + 2) (drop ((k - 1) * max 1 (length ts div k)) ts)"
proof (cases "ts = []")
  case True
  then show ?thesis by (simp add: thought_window_def py_slice_def)
next
  case False
  with assms have "thoughts_per_step ts k = max 1 (length ts div k)"
    by (simp add: thoughts_per_step_def max_def)
  then show ?thesis
    using py_slice_clipped[of ts "(k - 1) * max 1 (length ts div k)" "max 1 (length ts div k) + 2"]
    by (simp add: thought_window_def Let_def add.assoc)
qed

text \<open>
  C8, as amended. Step \<open>k\<close> of a trace with \<open>T\<close> logged thoughts receives a
  consecutive window of the thoughts that starts at index \<open>(k - 1) * w\<close> and holds at
  most \<open>w + 2\<close> of them, where \<open>w = max(1, T div k)\<close> is the thought count divided by the
  step's own number, not by the number of steps; so the window shrinks as the step
  number grows. The thoughts attached to the step are the messages of this window,
  sorted by their type.
\<close>

theorem thought_window_by_step_number:
  assumes "0 < k"
  shows "thought_window ts k =
           take (max 1 (length ts div k) + 2) (drop ((k - 1) * max 1 (length ts div k)) ts)
   \<and> es_thoughts (snd (enhance_step_with_thoughts si es k ts None)) =
       Some \<lparr>st_actions = map th_message (filter (\<lambda>t. th_type t = ''action'') (thought_window ts k)),
             st_observations =
               map th_message (filter (\<lambda>t. th_type t = ''observation'') (thought_window ts k)),
             st_decisions =
               map th_message (filter (\<lambda>t. th_type t = ''decision'') (thought_window ts k))\<rparr>"
  using thought_window_eq[OF assms]
  by (simp add: enhance_step_with_thoughts_def collect_thoughts_def foldl_add_thought Let_def)

text \<open>
  C8 as stated fails: with six thoughts the first three steps get windows of six, three
  and two thoughts, whatever the number of steps of the trace.
\<close>

theorem thought_window_varies_with_step:
  "length six_thoughts = 6
   \<and> map (\<lambda>k. thoughts_per_step six_thoughts k) [1, 2, 3] = [6, 3, 2]
   \<and> map (\<lambda>k. length (thought_window six_thoughts k)) [1, 2, 3] = [6, 3, 2]"
  by code_simp

text \<open>
  The second step of a trace with six thoughts.
\<close>

theorem thought_window_by_step_number_witness:
  "(0::nat) < 2
   \<and> map th_message (thought_window six_thoughts 2) = [''thought 3'', ''thought 4'', ''thought 5'']
   \<and> es_thoughts (snd (enhance_step_with_thoughts (init_step_info 1) (init_enhanced_step 1) 2
                         six_thoughts None))
     = Some \<lparr>st_actions = [''thought 3'', ''thought 4'', ''thought 5''],
             st_observations = [], st_decisions = []\<rparr>"
proof -
  have p: "(0::nat) < 2" by simp
  from thought_window_by_step_number[OF p, of six_thoughts "init_step_info 1" "init_enhanced_step 1"]
  show ?thesis
    by (simp add: six_thoughts_def)
qed


section \<open>Properties of the trace normalizer\<close>

text \<open>The branches keep the step numbers and the lists of steps, and add the same number
  of entries, at most one, to the two screenshot lists.\<close>

lemma enhance_keeps [simp]:
  "si_step_number (fst (enhance_step_with_thoughts si es k th a)) = si_step_number si"
  "es_step_number (snd (enhance_step_with_thoughts si es k th a)) = es_step_number es"
  "es_errors (snd (enhance_step_with_thoughts si es k th a)) = es_errors es"
  "es_detail_actions (snd (enhance_step_with_thoughts si es k th a)) = es_detail_actions es"
  "es_detail_results (snd (enhance_step_with_thoughts si es k th a)) = es_detail_results es"
  "es_screenshot_url (snd (enhance_step_with_thoughts si es k th a)) = es_screenshot_url es"
  by (simp_all add: enhance_step_with_thoughts_def Let_def)

lemma frame_refl: "frame 0 st st"
  by (cases st) (simp add: frame_def)

lemma frame_trans: "frame a st st1 \<Longrightarrow> frame b st1 st2 \<Longrightarrow> frame (a + b) st st2"
  by (cases st, cases st1, cases st2) (simp add: frame_def)

lemma frame_attach: "frame 1 st (attach_screenshot filename st)"
  by (cases st) (simp add: frame_def attach_screenshot_def)

lemma frame_note: "frame 0 st (note_error label e st)"
  by (cases st) (simp add: frame_def note_error_def)

lemma frame_tuple_screenshots:
  "\<exists>d\<le>1. frame d st (tuple_screenshots env filename items st)"
proof (induction items arbitrary: st)
  case Nil
  have "frame 0 st st" by (rule frame_refl)
  then show ?case by (intro exI[of _ 0]) simp
next
  case (Cons item items)
  show ?case
  proof (cases "it_screenshot item")
    case None
    with Cons show ?thesis by simp
  next
    case (Some sh)
    show ?thesis
    proof (cases "shot_truthy sh")
      case False
      with Some Cons show ?thesis by simp
    next
      case True
      show ?thesis
      proof (cases "persist_tuple env (screenshot_path filename) sh")
        case None
        with Some True show ?thesis using frame_attach[of st filename] by auto
      next
        case (Some e)
        from Cons[of "note_error ''Screenshot save error: '' e st"]
        obtain d where "d \<le> 1"
          "frame d (note_error ''Screenshot save error: '' e st)
             (tuple_screenshots env filename items (note_error ''Screenshot save error: '' e st))"
          by blast
        with frame_trans[OF frame_note this(2)] \<open>it_screenshot item = _\<close> True Some
        show ?thesis by auto
      qed
    qed
  qed
qed

lemma frame_other_screenshots:
  "\<exists>d\<le>1. frame d st (other_screenshots env filename shots attrs st)"
proof (induction attrs arbitrary: st)
  case Nil
  have "frame 0 st st" by (rule frame_refl)
  then show ?case by (intro exI[of _ 0]) simp
next
  case (Cons attr attrs)
  show ?case
  proof (cases "map_of shots attr")
    case None
    with Cons show ?thesis by simp
  next
    case (Some sh)
    show ?thesis
    proof (cases "shot_truthy sh")
      case False
      with Some Cons show ?thesis by simp
    next
      case True
      show ?thesis
      proof (cases "persist_other env (screenshot_path filename) sh")
        case None
        with Some True show ?thesis using frame_attach[of st filename] by auto
      next
        case (Some e)
        from Cons[of "note_error ''Screenshot processing error: '' e st"]
        obtain d where "d \<le> 1"
          "frame d (note_error ''Screenshot processing error: '' e st)
             (other_screenshots env filename shots attrs
                (note_error ''Screenshot processing error: '' e st))"
          by blast
        with frame_trans[OF frame_note this(2)] \<open>map_of shots attr = _\<close> True Some
        show ?thesis by auto
      qed
    qed
  qed
qed


lemma frame_process_tuple:
  "\<exists>d\<le>1. frame d st (process_tuple env task_id timestamp th i items st)"
proof -
  obtain si es res where st: "st = (si, es, res)" by (cases st)
  define st1 where "st1 =
        (case items of
           x0 # x1 # _ \<Rightarrow>
             let action_data = (if it_truthy x0 then it_str x0 else ''N/A'');
                 result_data = (if it_truthy x1 then it_str x1 else ''N/A'');
                 step_info = si\<lparr>si_action := action_data, si_result := result_data\<rparr>;
                 enhanced_step = es\<lparr>
                   es_action_summary := extract_action_summary action_data,
                   es_result_summary := extract_result_summary result_data,
                   es_action_type := classify_action_type action_data,
                   es_success_status := determine_success_status result_data\<rparr>
             in (case enhance_step_with_thoughts step_info enhanced_step (i + 1) th None of
                   (step_info, enhanced_step) \<Rightarrow> (step_info, enhanced_step, res))
         | _ \<Rightarrow> (si, es, res))"
  have f1: "frame 0 st st1"
    unfolding st1_def st
    by (simp add: frame_def Let_def case_prod_beta split: list.splits)
  have eq: "process_tuple env task_id timestamp th i items st
              = tuple_screenshots env (screenshot_filename task_id i timestamp) items st1"
    unfolding st1_def st process_tuple_def by simp
  from frame_tuple_screenshots[of st1 env "screenshot_filename task_id i timestamp" items]
  obtain d where "d \<le> 1" "frame d st1 (tuple_screenshots env (screenshot_filename task_id i timestamp) items st1)"
    by blast
  with frame_trans[OF f1 this(2)] eq show ?thesis by auto
qed


lemma probe_texts_keeps [simp]:
  "si_step_number (fst (probe_texts obj (si, es))) = si_step_number si"
  "es_step_number (snd (probe_texts obj (si, es))) = es_step_number es"
  "es_errors (snd (probe_texts obj (si, es))) = es_errors es"
  "es_detail_actions (snd (probe_texts obj (si, es))) = es_detail_actions es"
  "es_detail_results (snd (probe_texts obj (si, es))) = es_detail_results es"
  by (simp_all add: probe_texts_def Let_def split: option.splits)

lemma frame_process_other:
  "\<exists>d\<le>1. frame d st (process_other env task_id timestamp i step st)"
proof -
  obtain si es res where st: "st = (si, es, res)" by (cases st)
  define u where "u = probe_texts (os_attrs step) (si, es)"
  define st1 where "st1 = (fst u, snd u, res)"
  have eq: "process_other env task_id timestamp i step st
      = other_screenshots env (screenshot_filename task_id i timestamp) (os_shots step)
          [''screenshot'', ''image'', ''screen_capture'', ''page_screenshot''] st1"
    unfolding st process_other_def st1_def u_def
    by (simp add: case_prod_beta del: other_screenshots.simps)
  have f1: "frame 0 st st1" unfolding st st1_def u_def by (simp add: frame_def)
  from frame_other_screenshots[of st1 env "screenshot_filename task_id i timestamp"
         "os_shots step" "[''screenshot'', ''image'', ''screen_capture'', ''page_screenshot'']"]
  obtain d where "d \<le> 1"
    "frame d st1
       (other_screenshots env (screenshot_filename task_id i timestamp) (os_shots step)
          [''screenshot'', ''image'', ''screen_capture'', ''page_screenshot''] st1)"
    by blast
  with frame_trans[OF f1 this(2)] eq show ?thesis by auto
qed

lemma process_agent_history_raises:
  "extract_actions (ah_action ah) = Inl e \<Longrightarrow>
     process_agent_history env task_id timestamp th i ah st = Inl e"
  by (cases st) (simp add: process_agent_history_def bind_err_def)

lemma frame_agent_history_screenshot:
  "\<exists>d\<le>1. frame d st (agent_history_screenshot env filename data st)"
proof -
  have "agent_history_screenshot env filename data st = st
      \<or> agent_history_screenshot env filename data st = attach_screenshot filename st
      \<or> (\<exists>e. agent_history_screenshot env filename data st
                 = note_error ''Screenshot save error: '' e st)"
    by (auto simp: agent_history_screenshot_def split: option.splits)
  then show ?thesis
    using frame_refl[of st] frame_attach[of st filename]
      frame_note[of st "''Screenshot save error: ''"]
    by (metis le_numeral_extra(4) zero_le)
qed

lemma agent_history_update_keeps [simp]:
  "si_step_number (fst (agent_history_update i actions rs (si, es))) = si_step_number si"
  "es_step_number (snd (agent_history_update i actions rs (si, es))) = es_step_number es"
  by (simp_all add: agent_history_update_def Let_def)

lemma frame_process_agent_history:
  assumes "extract_actions (ah_action ah) = Inr actions"
  shows "\<exists>d\<le>1. \<exists>st'. process_agent_history env task_id timestamp th i ah st = Inr st'
           \<and> frame d st st'"
proof -
  obtain si es res where st: "st = (si, es, res)" by (cases st)
  define u where "u = agent_history_update i actions (extract_results (ah_result ah)) (si, es)"
  define st1 where "st1 = (fst u, snd u, res)"
  define st2 where "st2 = agent_history_screenshot env (screenshot_filename task_id i timestamp)
                            (ah_screenshot ah) st1"
  define v where "v = enhance_step_with_thoughts (fst st2) (fst (snd st2)) (i + 1) th (Some actions)"
  define st3 where "st3 = (fst v, snd v, snd (snd st2))"
  have eq: "process_agent_history env task_id timestamp th i ah st = Inr st3"
    unfolding st process_agent_history_def assms bind_err_def st3_def v_def st2_def st1_def u_def
    by (simp add: Let_def case_prod_beta)
  have f1: "frame 0 st st1" unfolding st st1_def u_def by (simp add: frame_def)
  obtain d where d: "d \<le> 1" "frame d st1 st2"
    unfolding st2_def using frame_agent_history_screenshot by blast
  have f3: "frame 0 st2 st3" unfolding st3_def v_def by (cases st2) (simp add: frame_def)
  from frame_trans[OF frame_trans[OF f1 d(2)] f3] have "frame d st st3" by simp
  with d(1) eq show ?thesis by blast
qed


lemma finish_step:
  assumes "frame d (init_step_info i, init_enhanced_step i, res) st'"
  shows "appended i d res (append_step th i st')"
  using assms
  by (cases st')
     (simp add: frame_def appended_def append_step_def case_prod_beta init_step_info_def
                init_enhanced_step_def)

lemma process_step_raises:
  assumes "\<not> step_ok step"
  shows "\<exists>e. process_step env task_id timestamp th i step res = Inl e
           \<and> first_error (step # steps) = Some e"
proof -
  from assms obtain ah e where "step = AgentHistory ah" "extract_actions (ah_action ah) = Inl e"
    by (cases step) (auto simp: step_ok_def isl_def)
  then show ?thesis
    using process_agent_history_raises[of ah e]
    by (simp add: process_step_def bind_err_def)
qed

lemma first_error_ok: "step_ok step \<Longrightarrow> first_error (step # steps) = first_error steps"
  by (cases step) (auto simp: step_ok_def split: sum.splits)

lemma first_error_None: "first_error steps = None \<longleftrightarrow> list_all step_ok steps"
  by (induction steps rule: first_error.induct) (auto simp: step_ok_def split: sum.splits)

lemma process_step_ok:
  assumes "step_ok step"
  shows "\<exists>d\<le>1. \<exists>res'. process_step env task_id timestamp th i step res = Inr res'
           \<and> appended i d res res'"
proof -
  let ?st0 = "(init_step_info i, init_enhanced_step i, res)"
  have "\<exists>d\<le>1. \<exists>st'. (case step of
           AgentHistory ah \<Rightarrow> process_agent_history env task_id timestamp th i ah ?st0
         | TupleStep items \<Rightarrow> Inr (process_tuple env task_id timestamp th i items ?st0)
         | OtherStep obj \<Rightarrow> Inr (process_other env task_id timestamp i obj ?st0)) = Inr st'
         \<and> frame d ?st0 st'"
  proof (cases step)
    case (AgentHistory ah)
    with assms obtain actions where "extract_actions (ah_action ah) = Inr actions"
      by (cases "extract_actions (ah_action ah)") (auto simp: step_ok_def)
    from frame_process_agent_history[OF this] AgentHistory show ?thesis by simp
  next
    case (TupleStep items)
    then show ?thesis using frame_process_tuple[of ?st0 env task_id timestamp th i items] by simp
  next
    case (OtherStep obj)
    then show ?thesis using frame_process_other[of ?st0 env task_id timestamp i obj] by simp
  qed
  then obtain d st' where d: "d \<le> 1" "frame d ?st0 st'"
    and eq: "(case step of
           AgentHistory ah \<Rightarrow> process_agent_history env task_id timestamp th i ah ?st0
         | TupleStep items \<Rightarrow> Inr (process_tuple env task_id timestamp th i items ?st0)
         | OtherStep obj \<Rightarrow> Inr (process_other env task_id timestamp i obj ?st0)) = Inr st'"
    by blast
  from finish_step[OF d(2), of th] d(1) show ?thesis
    unfolding process_step_def Let_def eq bind_err_def by auto
qed


lemma appended_numbers:
  assumes "appended i d res res'"
  shows "map es_step_number (res_enhanced_steps res')
           = map es_step_number (res_enhanced_steps res) @ [Suc i]"
    and "map si_step_number (res_execution_steps res')
           = map si_step_number (res_execution_steps res) @ [Suc i]"
proof -
  from assms have e: "res_enhanced_steps res' = res_enhanced_steps res @ [last (res_enhanced_steps res')]"
    and n: "es_step_number (last (res_enhanced_steps res')) = i + 1"
    and e2: "res_execution_steps res' = res_execution_steps res @ [last (res_execution_steps res')]"
    and n2: "si_step_number (last (res_execution_steps res')) = i + 1"
    by (simp_all add: appended_def)
  show "map es_step_number (res_enhanced_steps res')
           = map es_step_number (res_enhanced_steps res) @ [Suc i]"
    by (subst e) (simp add: n)
  show "map si_step_number (res_execution_steps res')
           = map si_step_number (res_execution_steps res) @ [Suc i]"
    by (subst e2) (simp add: n2)
qed

text \<open>The loop, from index i on.\<close>

lemma process_steps_inv:
  "\<exists>res' e. (if list_all step_ok steps
              then process_steps env task_id timestamp th i steps res = Inr res'
              else process_steps env task_id timestamp th i steps res = Inl (e, res'))
     \<and> (\<not> list_all step_ok steps \<longrightarrow> first_error steps = Some e)
     \<and> res_success res' = res_success res \<and> res_error res' = res_error res
     \<and> length (res_screenshots res') + length (res_screenshot_urls res)
         = length (res_screenshot_urls res') + length (res_screenshots res)
     \<and> map es_step_number (res_enhanced_steps res')
         = map es_step_number (res_enhanced_steps res)
           @ [Suc i ..< Suc i + length (takeWhile step_ok steps)]
     \<and> map si_step_number (res_execution_steps res')
         = map si_step_number (res_execution_steps res)
           @ [Suc i ..< Suc i + length (takeWhile step_ok steps)]"
proof (induction steps arbitrary: i res)
  case Nil
  then show ?case by simp
next
  case (Cons step steps)
  show ?case
  proof (cases "step_ok step")
    case False
    from process_step_raises[OF this, of env task_id timestamp th i res steps]
    obtain e where "process_step env task_id timestamp th i step res = Inl e"
      "first_error (step # steps) = Some e" by blast
    with False show ?thesis by auto
  next
    case True
    from process_step_ok[OF this, of env task_id timestamp th i res]
    obtain d res1 where s: "process_step env task_id timestamp th i step res = Inr res1"
      and a: "appended i d res res1" by blast
    from Cons[of "Suc i" res1] obtain res' e where
      r: "if list_all step_ok steps
          then process_steps env task_id timestamp th (Suc i) steps res1 = Inr res'
          else process_steps env task_id timestamp th (Suc i) steps res1 = Inl (e, res')"
      and fe: "\<not> list_all step_ok steps \<longrightarrow> first_error steps = Some e"
      and p: "res_success res' = res_success res1" "res_error res' = res_error res1"
        "length (res_screenshots res') + length (res_screenshot_urls res1)
           = length (res_screenshot_urls res') + length (res_screenshots res1)"
        "map es_step_number (res_enhanced_steps res')
           = map es_step_number (res_enhanced_steps res1)
             @ [Suc (Suc i) ..< Suc (Suc i) + length (takeWhile step_ok steps)]"
        "map si_step_number (res_execution_steps res')
           = map si_step_number (res_execution_steps res1)
             @ [Suc (Suc i) ..< Suc (Suc i) + length (takeWhile step_ok steps)]"
      by blast
    have u: "[Suc i ..< Suc (Suc (i + n))] = Suc i # [Suc (Suc i) ..< Suc (Suc (i + n))]" for n
      by (simp add: upt_conv_Cons)
    from a have k: "res_success res1 = res_success res" "res_error res1 = res_error res"
      "length (res_screenshots res1) = length (res_screenshots res) + d"
      "length (res_screenshot_urls res1) = length (res_screenshot_urls res) + d"
      by (simp_all add: appended_def)
    have "(if list_all step_ok (step # steps)
           then process_steps env task_id timestamp th i (step # steps) res = Inr res'
           else process_steps env task_id timestamp th i (step # steps) res = Inl (e, res'))"
      using r s True by simp
    moreover have "\<not> list_all step_ok (step # steps) \<longrightarrow> first_error (step # steps) = Some e"
      using fe True by (simp add: first_error_ok)
    moreover have "res_success res' = res_success res" "res_error res' = res_error res"
      using p k by simp_all
    moreover have "length (res_screenshots res') + length (res_screenshot_urls res)
         = length (res_screenshot_urls res') + length (res_screenshots res)"
      using p(3) k by simp
    moreover have "map es_step_number (res_enhanced_steps res')
         = map es_step_number (res_enhanced_steps res)
           @ [Suc i ..< Suc i + length (takeWhile step_ok (step # steps))]"
      using p(4) appended_numbers(1)[OF a] True by (simp add: u del: upt_Suc)
    moreover have "map si_step_number (res_execution_steps res')
         = map si_step_number (res_execution_steps res)
           @ [Suc i ..< Suc i + length (takeWhile step_ok (step # steps))]"
      using p(5) appended_numbers(2)[OF a] True by (simp add: u del: upt_Suc)
    ultimately show ?thesis by blast
  qed
qed


lemma normalize_trace_inv:
  "res_error (normalize_trace env task_id timestamp th history)
     = map_option error_str (first_error history)"
  "res_success (normalize_trace env task_id timestamp th history)
     = (history \<noteq> [] \<and> list_all step_ok history)"
  "length (res_screenshots (normalize_trace env task_id timestamp th history))
     = length (res_screenshot_urls (normalize_trace env task_id timestamp th history))"
  "map es_step_number (res_enhanced_steps (normalize_trace env task_id timestamp th history))
     = [1 ..< Suc (length (takeWhile step_ok history))]"
  "map si_step_number (res_execution_steps (normalize_trace env task_id timestamp th history))
     = [1 ..< Suc (length (takeWhile step_ok history))]"
proof -
  let ?res = "init_results task_id th"
  from process_steps_inv[of history env task_id timestamp th 0 ?res]
  obtain res' e where
    r: "if list_all step_ok history
        then process_steps env task_id timestamp th 0 history ?res = Inr res'
        else process_steps env task_id timestamp th 0 history ?res = Inl (e, res')"
    and fe: "\<not> list_all step_ok history \<longrightarrow> first_error history = Some e"
    and p: "res_success res' = res_success ?res" "res_error res' = res_error ?res"
      "length (res_screenshots res') + length (res_screenshot_urls ?res)
         = length (res_screenshot_urls res') + length (res_screenshots ?res)"
      "map es_step_number (res_enhanced_steps res')
         = map es_step_number (res_enhanced_steps ?res)
           @ [Suc 0 ..< Suc 0 + length (takeWhile step_ok history)]"
      "map si_step_number (res_execution_steps res')
         = map si_step_number (res_execution_steps ?res)
           @ [Suc 0 ..< Suc 0 + length (takeWhile step_ok history)]"
    by blast
  have i: "res_success ?res = False" "res_error ?res = None" "res_screenshots ?res = []"
    "res_screenshot_urls ?res = []" "res_enhanced_steps ?res = []" "res_execution_steps ?res = []"
    by (simp_all add: init_results_def)
  have n: "normalize_trace env task_id timestamp th history =
      (if history = [] then ?res
       else if list_all step_ok history then res'\<lparr>res_success := True\<rparr>
       else res'\<lparr>res_error := Some (error_str e)\<rparr>)"
    using r by (auto simp: normalize_trace_def Let_def)
  have fn: "list_all step_ok history \<Longrightarrow> first_error history = None"
    by (simp add: first_error_None)
  show "res_error (normalize_trace env task_id timestamp th history)
     = map_option error_str (first_error history)"
    using n p(2) i(2) fe fn by (cases history) auto
  show "res_success (normalize_trace env task_id timestamp th history)
     = (history \<noteq> [] \<and> list_all step_ok history)"
    using n p(1) i(1) by auto
  show "length (res_screenshots (normalize_trace env task_id timestamp th history))
     = length (res_screenshot_urls (normalize_trace env task_id timestamp th history))"
    using n p(3) i by auto
  show "map es_step_number (res_enhanced_steps (normalize_trace env task_id timestamp th history))
     = [1 ..< Suc (length (takeWhile step_ok history))]"
    using n p(4) i by (auto simp del: upt_Suc)
  show "map si_step_number (res_execution_steps (normalize_trace env task_id timestamp th history))
     = [1 ..< Suc (length (takeWhile step_ok history))]"
    using n p(5) i by (auto simp del: upt_Suc)
qed

lemma save_execution_results_fields:
  "res_enhanced_steps (save_execution_results env task_id timestamp th history)
     = res_enhanced_steps (normalize_trace env task_id timestamp th history)"
  "res_execution_steps (save_execution_results env task_id timestamp th history)
     = res_execution_steps (normalize_trace env task_id timestamp th history)"
  "res_screenshots (save_execution_results env task_id timestamp th history)
     = res_screenshots (normalize_trace env task_id timestamp th history)"
  "res_screenshot_urls (save_execution_results env task_id timestamp th history)
     = res_screenshot_urls (normalize_trace env task_id timestamp th history)"
  "res_success (save_execution_results env task_id timestamp th history)
     = res_success (normalize_trace env task_id timestamp th history)"
  by (simp_all add: save_execution_results_def Let_def split: option.splits)






text \<open>The screenshot loops, written out: the messages of the attempts that fail before
  the first one that completes are noted, and the screenshot is attached exactly when
  an attempt completes.\<close>

lemma note_error_eq:
  "note_error label e (si, es, res) = (si, es\<lparr>es_errors := es_errors es @ [label @ error_str e]\<rparr>, res)"
  by (simp add: note_error_def)

lemma tuple_screenshots_eq:
  "tuple_screenshots env filename items (si, es, res) =
     (let outs = map (persist_tuple env (screenshot_path filename))
                   (filter shot_truthy (List.map_filter it_screenshot items));
          es' = es\<lparr>es_errors := es_errors es
                  @ map (\<lambda>e. ''Screenshot save error: '' @ error_str e)
                      (failures_before_success outs)\<rparr>
      in if persisted outs then attach_screenshot filename (si, es', res) else (si, es', res))"
proof (induction items arbitrary: es)
  case Nil
  then show ?case by simp
next
  case (Cons item items)
  show ?case
  proof (cases "it_screenshot item")
    case None
    with Cons show ?thesis by simp
  next
    case (Some sh)
    show ?thesis
    proof (cases "shot_truthy sh")
      case False
      with Some Cons show ?thesis by simp
    next
      case True
      show ?thesis
      proof (cases "persist_tuple env (screenshot_path filename) sh")
        case None
        with Some True show ?thesis by simp
      next
        case (Some e)
        with \<open>it_screenshot item = Some sh\<close> True
          Cons[of "es\<lparr>es_errors := es_errors es @ [''Screenshot save error: '' @ error_str e]\<rparr>"]
        show ?thesis by (simp add: note_error_eq Let_def)
      qed
    qed
  qed
qed

lemma other_screenshots_eq:
  "other_screenshots env filename shots attrs (si, es, res) =
     (let outs = map (persist_other env (screenshot_path filename))
                   (filter shot_truthy (List.map_filter (map_of shots) attrs));
          es' = es\<lparr>es_errors := es_errors es
                  @ map (\<lambda>e. ''Screenshot processing error: '' @ error_str e)
                      (failures_before_success outs)\<rparr>
      in if persisted outs then attach_screenshot filename (si, es', res) else (si, es', res))"
proof (induction attrs arbitrary: es)
  case Nil
  then show ?case by simp
next
  case (Cons attr attrs)
  show ?case
  proof (cases "map_of shots attr")
    case None
    with Cons show ?thesis by simp
  next
    case (Some sh)
    show ?thesis
    proof (cases "shot_truthy sh")
      case False
      with Some Cons show ?thesis by simp
    next
      case True
      show ?thesis
      proof (cases "persist_other env (screenshot_path filename) sh")
        case None
        with Some True show ?thesis by simp
      next
        case (Some e)
        with \<open>map_of shots attr = Some sh\<close> True
          Cons[of "es\<lparr>es_errors := es_errors es @ [''Screenshot processing error: '' @ error_str e]\<rparr>"]
        show ?thesis by (simp add: note_error_eq Let_def)
      qed
    qed
  qed
qed

lemma agent_history_screenshot_eq:
  "agent_history_screenshot env filename data (si, es, res) =
     (let outs = (case data of None \<Rightarrow> []
                  | Some d \<Rightarrow> if d = [] then [] else [save_b64 env (screenshot_path filename) d]);
          es' = es\<lparr>es_errors := es_errors es
                  @ map (\<lambda>e. ''Screenshot save error: '' @ error_str e)
                      (failures_before_success outs)\<rparr>
      in if persisted outs then attach_screenshot filename (si, es', res) else (si, es', res))"
  by (auto simp: agent_history_screenshot_def note_error_eq split: option.splits)


text \<open>The fields after the screenshots of a step have been handled.\<close>

lemma after_screenshots:
  assumes "st' = (let outs = outs;
                      es' = es\<lparr>es_errors := es_errors es
                              @ map (\<lambda>e. label @ error_str e) (failures_before_success outs)\<rparr>
                  in if persisted outs then attach_screenshot filename (si, es', res)
                     else (si, es', res))"
  shows "res_screenshots (snd (snd st'))
           = res_screenshots res @ (if persisted outs then [screenshot_path filename] else [])"
    and "res_screenshot_urls (snd (snd st'))
           = res_screenshot_urls res @ (if persisted outs then [screenshot_url filename] else [])"
    and "res_enhanced_steps (snd (snd st')) = res_enhanced_steps res"
    and "es_errors (fst (snd st'))
           = es_errors es @ map (\<lambda>e. label @ error_str e) (failures_before_success outs)"
    and "es_screenshot_url (fst (snd st'))
           = (if persisted outs then Some (screenshot_url filename) else es_screenshot_url es)"
    and "es_detail_actions (fst (snd st')) = es_detail_actions es"
    and "es_detail_results (fst (snd st')) = es_detail_results es"
  unfolding assms by (simp_all add: Let_def attach_screenshot_def)

lemma append_step_fields:
  "res_screenshots (append_step th i st) = res_screenshots (snd (snd st))"
  "res_screenshot_urls (append_step th i st) = res_screenshot_urls (snd (snd st))"
  "res_enhanced_steps (append_step th i st)
     = res_enhanced_steps (snd (snd st))
       @ [snd (enhance_step_with_thoughts (fst st) (fst (snd st)) (i + 1) th None)]"
  by (simp_all add: append_step_def case_prod_beta)

lemma agent_history_update_fields [simp]:
  "es_errors (snd (agent_history_update i actions rs (si, es))) = es_errors es"
  "es_screenshot_url (snd (agent_history_update i actions rs (si, es))) = es_screenshot_url es"
  "es_detail_actions (snd (agent_history_update i actions rs (si, es))) = Some actions"
  "es_detail_results (snd (agent_history_update i actions rs (si, es))) = Some rs"
  by (simp_all add: agent_history_update_def Let_def)

lemma probe_texts_url [simp]:
  "es_screenshot_url (snd (probe_texts obj (si, es))) = es_screenshot_url es"
  by (simp add: probe_texts_def Let_def split: option.splits)

lemma init_enhanced_step_fields [simp]:
  "es_errors (init_enhanced_step i) = []" "es_screenshot_url (init_enhanced_step i) = None"
  "es_detail_actions (init_enhanced_step i) = None"
  "es_detail_results (init_enhanced_step i) = None"
  by (simp_all add: init_enhanced_step_def)

text \<open>What one pass of the loop does with the screenshots of a step that does not raise.\<close>

lemma process_step_effect:
  fixes task_id timestamp :: string and i :: nat and env :: env and step :: raw_step
  defines "filename \<equiv> screenshot_filename task_id i timestamp"
  defines "outs \<equiv> persistence_attempts env (screenshot_path filename) step"
  assumes ok: "step_ok step"
  shows "\<exists>res'. process_step env task_id timestamp th i step res = Inr res'
      \<and> res_screenshots res'
          = res_screenshots res @ (if persisted outs then [screenshot_path filename] else [])
      \<and> res_screenshot_urls res'
          = res_screenshot_urls res @ (if persisted outs then [screenshot_url filename] else [])
      \<and> length (res_enhanced_steps res') = Suc (length (res_enhanced_steps res))
      \<and> es_errors (last (res_enhanced_steps res'))
          = map (\<lambda>e. error_label step @ error_str e) (failures_before_success outs)
      \<and> es_screenshot_url (last (res_enhanced_steps res'))
          = (if persisted outs then Some (screenshot_url filename) else None)
      \<and> map_option Inr (es_detail_actions (last (res_enhanced_steps res')))
          = (case step of AgentHistory ah \<Rightarrow> Some (extract_actions (ah_action ah)) | _ \<Rightarrow> None)
      \<and> es_detail_results (last (res_enhanced_steps res'))
          = (case step of AgentHistory ah \<Rightarrow> Some (extract_results (ah_result ah)) | _ \<Rightarrow> None)"
proof (cases step)
  case (AgentHistory ah)
  with ok obtain actions where a: "extract_actions (ah_action ah) = Inr actions"
    by (cases "extract_actions (ah_action ah)") (auto simp: step_ok_def)
  define u where "u = agent_history_update i actions (extract_results (ah_result ah))
                        (init_step_info i, init_enhanced_step i)"
  define st2 where "st2 = agent_history_screenshot env filename (ah_screenshot ah)
                            (fst u, snd u, res)"
  define v where "v = enhance_step_with_thoughts (fst st2) (fst (snd st2)) (i + 1) th (Some actions)"
  define st3 where "st3 = (fst v, snd v, snd (snd st2))"
  have eq: "process_step env task_id timestamp th i step res = Inr (append_step th i st3)"
    unfolding AgentHistory process_step_def st3_def v_def st2_def u_def filename_def
    by (simp add: process_agent_history_def a bind_err_def Let_def case_prod_beta)
  have o: "outs = (case ah_screenshot ah of None \<Rightarrow> []
                   | Some d \<Rightarrow> if d = [] then [] else [save_b64 env (screenshot_path filename) d])"
    unfolding outs_def AgentHistory by (simp add: persistence_attempts_def)
  note f = after_screenshots[OF agent_history_screenshot_eq[of env filename "ah_screenshot ah"
             "fst u" "snd u" res, folded st2_def o]]
  have u: "es_errors (snd u) = []" "es_screenshot_url (snd u) = None"
    "es_detail_actions (snd u) = Some actions"
    "es_detail_results (snd u) = Some (extract_results (ah_result ah))"
    unfolding u_def by simp_all
  show ?thesis
    unfolding eq
    by (intro exI[of _ "append_step th i st3"])
       (simp add: append_step_fields st3_def v_def f u AgentHistory a)
next
  case (TupleStep items)
  define st1 where "st1 =
        (case items of
           x0 # x1 # _ \<Rightarrow>
             let action_data = (if it_truthy x0 then it_str x0 else ''N/A'');
                 result_data = (if it_truthy x1 then it_str x1 else ''N/A'');
                 step_info = (init_step_info i)\<lparr>si_action := action_data, si_result := result_data\<rparr>;
                 enhanced_step = (init_enhanced_step i)\<lparr>
                   es_action_summary := extract_action_summary action_data,
                   es_result_summary := extract_result_summary result_data,
                   es_action_type := classify_action_type action_data,
                   es_success_status := determine_success_status result_data\<rparr>
             in (case enhance_step_with_thoughts step_info enhanced_step (i + 1) th None of
                   (step_info, enhanced_step) \<Rightarrow> (step_info, enhanced_step, res))
         | _ \<Rightarrow> (init_step_info i, init_enhanced_step i, res))"
  define st2 where "st2 = tuple_screenshots env filename items (fst st1, fst (snd st1), res)"
  have r: "snd (snd st1) = res" unfolding st1_def
    by (simp add: Let_def case_prod_beta split: list.splits)
  have e: "es_errors (fst (snd st1)) = []" "es_screenshot_url (fst (snd st1)) = None"
    "es_detail_actions (fst (snd st1)) = None" "es_detail_results (fst (snd st1)) = None"
    unfolding st1_def by (simp_all add: Let_def case_prod_beta split: list.splits)
  have "process_tuple env task_id timestamp th i items (init_step_info i, init_enhanced_step i, res)
          = tuple_screenshots env filename items st1"
    unfolding process_tuple_def st1_def filename_def by simp
  also have "st1 = (fst st1, fst (snd st1), res)" using r by (cases st1) auto
  finally have eq: "process_step env task_id timestamp th i step res = Inr (append_step th i st2)"
    unfolding TupleStep process_step_def bind_err_def st2_def by (simp add: Let_def)
  have o: "outs = map (persist_tuple env (screenshot_path filename))
                    (filter shot_truthy (List.map_filter it_screenshot items))"
    unfolding outs_def TupleStep by (simp add: persistence_attempts_def)
  note f = after_screenshots[OF tuple_screenshots_eq[of env filename items
             "fst st1" "fst (snd st1)" res, folded st2_def o]]
  show ?thesis
    unfolding eq
    by (intro exI[of _ "append_step th i st2"])
       (simp add: append_step_fields f e TupleStep)
next
  case (OtherStep obj)
  define u where "u = probe_texts (os_attrs obj) (init_step_info i, init_enhanced_step i)"
  define st2 where "st2 = other_screenshots env filename (os_shots obj)
                            [''screenshot'', ''image'', ''screen_capture'', ''page_screenshot'']
                            (fst u, snd u, res)"
  have eq: "process_step env task_id timestamp th i step res = Inr (append_step th i st2)"
    unfolding OtherStep process_step_def process_other_def bind_err_def st2_def u_def filename_def
    by (simp add: Let_def case_prod_beta del: other_screenshots.simps)
  have o: "outs = map (persist_other env (screenshot_path filename))
                    (filter shot_truthy
                       (List.map_filter (map_of (os_shots obj))
                          [''screenshot'', ''image'', ''screen_capture'', ''page_screenshot'']))"
    unfolding outs_def OtherStep by (simp add: persistence_attempts_def del: map_filter_simps)
  note f = after_screenshots[OF other_screenshots_eq[of env filename "os_shots obj"
             "[''screenshot'', ''image'', ''screen_capture'', ''page_screenshot'']"
             "fst u" "snd u" res, folded st2_def o]]
  have u: "es_errors (snd u) = []" "es_screenshot_url (snd u) = None"
    "es_detail_actions (snd u) = None" "es_detail_results (snd u) = None"
    unfolding u_def by simp_all
  show ?thesis
    unfolding eq
    by (intro exI[of _ "append_step th i st2"])
       (simp add: append_step_fields f u OtherStep)
qed


subsection \<open>The screenshot lists\<close>

lemma add_manual_lockstep:
  "length (res_screenshots res) = length (res_screenshot_urls res) \<Longrightarrow>
     length (res_screenshots (add_manual_screenshot shot res))
       = length (res_screenshot_urls (add_manual_screenshot shot res))"
  by (simp add: add_manual_screenshot_def split: option.splits prod.splits)

lemma add_manual_appends:
  "res_screenshots (add_manual_screenshot shot res)
     = res_screenshots res
       @ (case shot of Some (path, url) \<Rightarrow> if path \<noteq> [] then [path] else [] | None \<Rightarrow> [])"
  "res_screenshot_urls (add_manual_screenshot shot res)
     = res_screenshot_urls res
       @ (case shot of Some (path, url) \<Rightarrow> if path \<noteq> [] then [url] else [] | None \<Rightarrow> [])"
  by (simp_all add: add_manual_screenshot_def split: option.splits prod.splits)

lemma process_step_lockstep:
  assumes "length (res_screenshots res) = length (res_screenshot_urls res)"
  shows "case process_step env task_id timestamp th i step res of
           Inl e \<Rightarrow> True
         | Inr res' \<Rightarrow> length (res_screenshots res') = length (res_screenshot_urls res')
                      \<and> length (res_screenshots res) \<le> length (res_screenshots res')
                      \<and> length (res_screenshots res') \<le> length (res_screenshots res) + 1"
proof (cases "step_ok step")
  case True
  from process_step_ok[OF this, of env task_id timestamp th i res]
  obtain d res' where "d \<le> 1" "process_step env task_id timestamp th i step res = Inr res'"
    "appended i d res res'" by blast
  with assms show ?thesis by (simp add: appended_def)
next
  case False
  from process_step_raises[OF this, of env task_id timestamp th i res "[]"]
  show ?thesis by auto
qed

lemma process_step_appends:
  assumes "step_ok step"
  shows "(let filename = screenshot_filename task_id i timestamp;
              outs = persistence_attempts env (screenshot_path filename) step;
              out = process_step env task_id timestamp th i step res
          in \<not> isl out
             \<and> res_screenshots (projr out)
                 = res_screenshots res @ (if persisted outs then [screenshot_path filename] else [])
             \<and> res_screenshot_urls (projr out)
                 = res_screenshot_urls res
                   @ (if persisted outs then [screenshot_url filename] else []))"
proof -
  from process_step_effect[OF assms, of env task_id timestamp th i res]
  obtain res' where "process_step env task_id timestamp th i step res = Inr res'"
    and "res_screenshots res' = res_screenshots res
           @ (if persisted (persistence_attempts env
                  (screenshot_path (screenshot_filename task_id i timestamp)) step)
              then [screenshot_path (screenshot_filename task_id i timestamp)] else [])"
    and "res_screenshot_urls res' = res_screenshot_urls res
           @ (if persisted (persistence_attempts env
                  (screenshot_path (screenshot_filename task_id i timestamp)) step)
              then [screenshot_url (screenshot_filename task_id i timestamp)] else [])"
    by blast
  then show ?thesis by (simp add: Let_def)
qed

lemma process_steps_raise_keeps:
  assumes "\<not> step_ok step"
  shows "map_sum snd id (process_steps env task_id timestamp th i (step # steps) res) = Inl res"
proof -
  from process_step_raises[OF assms, of env task_id timestamp th i res steps]
  obtain e where "process_step env task_id timestamp th i step res = Inl e" by blast
  then show ?thesis by simp
qed

lemma persisted_iff: "persisted outs = (None \<in> set outs)"
  by (induction outs rule: persisted.induct) auto

text \<open>
  C10. The list of screenshot paths and the list of screenshot URLs have the same
  length in the result of the normalizer and in the result of the orchestrator, after
  the manual initial and final screenshots. Each pass of the loop keeps the lengths
  equal and adds at most one entry, to both lists or to neither. In each of the three
  branches, a step that is processed without exception appends its path to the one list
  and its URL to the other exactly when the \<open>try\<close> block of one of its screenshot
  candidates completes (\<open>persisted\<close>), and appends nothing to either list when every
  candidate raises or when there is none; a step that raises leaves the loop with both
  lists as they were before it. A manual screenshot appends its path and its URL
  together, or nothing when the capture returned no path.

  The \<open>try\<close> block of a candidate also completes when the screenshot has none of
  the forms that the block writes (in the tuple branch a value that is neither bytes nor
  an image; in the last branch also a string that is neither a data URI nor the path of
  an existing file): nothing is written then, and the path and the URL are appended all
  the same.
\<close>

theorem screenshot_lists_lockstep:
  "length (res_screenshots (save_execution_results env task_id timestamp th history))
     = length (res_screenshot_urls (save_execution_results env task_id timestamp th history))
   \<and> length (res_screenshots (execute_task env task_id timestamp th initial final run closing))
     = length (res_screenshot_urls
         (execute_task env task_id timestamp th initial final run closing))
   \<and> (length (res_screenshots res) = length (res_screenshot_urls res) \<longrightarrow>
        (case process_step env task_id timestamp th i step res of
           Inl e \<Rightarrow> True
         | Inr res' \<Rightarrow> length (res_screenshots res') = length (res_screenshot_urls res')
                      \<and> length (res_screenshots res) \<le> length (res_screenshots res')
                      \<and> length (res_screenshots res') \<le> length (res_screenshots res) + 1))
   \<and> (step_ok step \<longrightarrow>
        (let filename = screenshot_filename task_id i timestamp;
             outs = persistence_attempts env (screenshot_path filename) step;
             out = process_step env task_id timestamp th i step res
         in \<not> isl out
            \<and> res_screenshots (projr out)
                = res_screenshots res @ (if persisted outs then [screenshot_path filename] else [])
            \<and> res_screenshot_urls (projr out)
                = res_screenshot_urls res
                  @ (if persisted outs then [screenshot_url filename] else [])))
   \<and> (\<not> step_ok step \<longrightarrow>
        map_sum snd id (process_steps env task_id timestamp th i (step # steps) res) = Inl res)
   \<and> persisted (persistence_attempts env path step)
       = (None \<in> set (persistence_attempts env path step))
   \<and> res_screenshots (add_manual_screenshot shot res)
       = res_screenshots res
         @ (case shot of Some (p, u) \<Rightarrow> if p \<noteq> [] then [p] else [] | None \<Rightarrow> [])
   \<and> res_screenshot_urls (add_manual_screenshot shot res)
       = res_screenshot_urls res
         @ (case shot of Some (p, u) \<Rightarrow> if p \<noteq> [] then [u] else [] | None \<Rightarrow> [])"
proof (intro conjI impI)
  show s: "length (res_screenshots (save_execution_results env task_id timestamp th history))
     = length (res_screenshot_urls (save_execution_results env task_id timestamp th history))"
    for history
    by (simp only: save_execution_results_fields normalize_trace_inv)
  show "length (res_screenshots (execute_task env task_id timestamp th initial final run closing))
     = length (res_screenshot_urls
         (execute_task env task_id timestamp th initial final run closing))"
  proof (cases run)
    case (Inl e)
    then show ?thesis by (simp add: execute_task_def error_result_def)
  next
    case (Inr h)
    then show ?thesis
      using add_manual_lockstep[OF add_manual_lockstep[OF s[of h]]]
      by (cases closing) (simp_all add: execute_task_def error_result_def)
  qed
next
  assume "length (res_screenshots res) = length (res_screenshot_urls res)"
  then show "case process_step env task_id timestamp th i step res of
           Inl e \<Rightarrow> True
         | Inr res' \<Rightarrow> length (res_screenshots res') = length (res_screenshot_urls res')
                      \<and> length (res_screenshots res) \<le> length (res_screenshots res')
                      \<and> length (res_screenshots res') \<le> length (res_screenshots res) + 1"
    by (rule process_step_lockstep)
next
  assume "step_ok step"
  then show "let filename = screenshot_filename task_id i timestamp;
             outs = persistence_attempts env (screenshot_path filename) step;
             out = process_step env task_id timestamp th i step res
         in \<not> isl out
            \<and> res_screenshots (projr out)
                = res_screenshots res @ (if persisted outs then [screenshot_path filename] else [])
            \<and> res_screenshot_urls (projr out)
                = res_screenshot_urls res
                  @ (if persisted outs then [screenshot_url filename] else [])"
    by (rule process_step_appends)
next
  assume "\<not> step_ok step"
  then show "map_sum snd id (process_steps env task_id timestamp th i (step # steps) res)
               = Inl res"
    by (rule process_steps_raise_keeps)
next
  show "persisted (persistence_attempts env path step)
       = (None \<in> set (persistence_attempts env path step))"
    by (rule persisted_iff)
next
  show "res_screenshots (add_manual_screenshot shot res)
       = res_screenshots res
         @ (case shot of Some (p, u) \<Rightarrow> if p \<noteq> [] then [p] else [] | None \<Rightarrow> [])"
    by (rule add_manual_appends)
next
  show "res_screenshot_urls (add_manual_screenshot shot res)
       = res_screenshot_urls res
         @ (case shot of Some (p, u) \<Rightarrow> if p \<noteq> [] then [u] else [] | None \<Rightarrow> [])"
    by (rule add_manual_appends)
qed

text \<open>
  On a full disk the write of the bytes fails and the \<open>save\<close> of an image object
  completes. A tuple whose third item carries bytes and whose fourth carries an image
  appends one entry to each list; a tuple with the bytes only appends nothing; an object
  of the last branch with bytes and an image appends one entry to each list; the
  base64 screenshot of a step of the first branch appends nothing. With a disk that
  takes the writes, a run of two steps with the manual initial screenshot ends with two
  entries in each list.
\<close>

theorem screenshot_lists_lockstep_witness:
  "step_ok step_tuple_two_shots \<and> step_ok step_tuple_bytes \<and> step_ok step_other_two_shots
   \<and> step_ok step_navigate \<and> \<not> step_ok step_done_without_success
   \<and> persistence_attempts env_disk_full
        ''operation_logs/screenshots/task_1_step_1_20250101_000000.png'' step_tuple_two_shots
       = [Some (OSError ''[Errno 28] No space left on device''), None]
   \<and> map_sum id (\<lambda>r. (res_screenshots r, res_screenshot_urls r))
        (process_step env_disk_full ''task_1'' ''20250101_000000'' [] 0 step_tuple_two_shots
           (init_results ''task_1'' []))
       = Inr ([''operation_logs/screenshots/task_1_step_1_20250101_000000.png''],
              [''/screenshots/task_1_step_1_20250101_000000.png''])
   \<and> persistence_attempts env_disk_full
        ''operation_logs/screenshots/task_1_step_1_20250101_000000.png'' step_tuple_bytes
       = [Some (OSError ''[Errno 28] No space left on device'')]
   \<and> map_sum id (\<lambda>r. (res_screenshots r, res_screenshot_urls r))
        (process_step env_disk_full ''task_1'' ''20250101_000000'' [] 0 step_tuple_bytes
           (init_results ''task_1'' []))
       = Inr ([], [])
   \<and> map_sum id (\<lambda>r. (res_screenshots r, res_screenshot_urls r))
        (process_step env_disk_full ''task_1'' ''20250101_000000'' [] 0 step_other_two_shots
           (init_results ''task_1'' []))
       = Inr ([''operation_logs/screenshots/task_1_step_1_20250101_000000.png''],
              [''/screenshots/task_1_step_1_20250101_000000.png''])
   \<and> map_sum id (\<lambda>r. (res_screenshots r, res_screenshot_urls r))
        (process_step env_disk_full ''task_1'' ''20250101_000000'' [] 0 step_navigate
           (init_results ''task_1'' []))
       = Inr ([], [])
   \<and> map_sum snd id
        (process_steps env_ok ''task_1'' ''20250101_000000'' [] 0
           [step_done_without_success, step_navigate] (init_results ''task_1'' []))
       = Inl (init_results ''task_1'' [])
   \<and> length (res_screenshots (execute_task env_ok ''task_1'' ''20250101_000000'' []
        (Some (''operation_logs/screenshots/task_1_initial_20250101_000000.png'',
               ''/screenshots/task_1_initial_20250101_000000.png'')) None
        (Inr [step_navigate, step_unrecognized]) None)) = 2
   \<and> length (res_screenshot_urls (execute_task env_ok ''task_1'' ''20250101_000000'' []
        (Some (''operation_logs/screenshots/task_1_initial_20250101_000000.png'',
               ''/screenshots/task_1_initial_20250101_000000.png'')) None
        (Inr [step_navigate, step_unrecognized]) None)) = 2"
proof -
  have ok: "step_ok step_tuple_two_shots" "step_ok step_tuple_bytes"
    "step_ok step_other_two_shots" "step_ok step_navigate"
    "\<not> step_ok step_done_without_success"
    by code_simp+
  have names: "screenshot_path (screenshot_filename ''task_1'' 0 ''20250101_000000'')
                 = ''operation_logs/screenshots/task_1_step_1_20250101_000000.png''"
    "screenshot_url (screenshot_filename ''task_1'' 0 ''20250101_000000'')
                 = ''/screenshots/task_1_step_1_20250101_000000.png''"
    by code_simp+
  have outs: "persistence_attempts env_disk_full
        ''operation_logs/screenshots/task_1_step_1_20250101_000000.png'' step_tuple_two_shots
       = [Some (OSError ''[Errno 28] No space left on device''), None]"
    "persistence_attempts env_disk_full
        ''operation_logs/screenshots/task_1_step_1_20250101_000000.png'' step_tuple_bytes
       = [Some (OSError ''[Errno 28] No space left on device'')]"
    "persistence_attempts env_disk_full
        ''operation_logs/screenshots/task_1_step_1_20250101_000000.png'' step_other_two_shots
       = [Some (OSError ''[Errno 28] No space left on device''), None]"
    "persistence_attempts env_disk_full
        ''operation_logs/screenshots/task_1_step_1_20250101_000000.png'' step_navigate
       = [Some (OSError ''[Errno 28] No space left on device'')]"
    by code_simp+
  have start: "res_screenshots (init_results ''task_1'' []) = []"
    "res_screenshot_urls (init_results ''task_1'' []) = []"
    by (simp_all add: init_results_def)
  have n: "length (res_screenshots (execute_task env_ok ''task_1'' ''20250101_000000'' []
      (Some (''operation_logs/screenshots/task_1_initial_20250101_000000.png'',
             ''/screenshots/task_1_initial_20250101_000000.png'')) None
      (Inr [step_navigate, step_unrecognized]) None)) = 2"
    by code_simp
  note t = screenshot_lists_lockstep[of env_disk_full "''task_1''" "''20250101_000000''" "[]"
      "[]" None None "Inr []" None "init_results ''task_1'' []" 0 _ "[]"
      "''operation_logs/screenshots/task_1_step_1_20250101_000000.png''" None]
  have a: "map_sum id (\<lambda>r. (res_screenshots r, res_screenshot_urls r))
        (process_step env_disk_full ''task_1'' ''20250101_000000'' [] 0 step_tuple_two_shots
           (init_results ''task_1'' []))
       = Inr ([''operation_logs/screenshots/task_1_step_1_20250101_000000.png''],
              [''/screenshots/task_1_step_1_20250101_000000.png''])"
    using t[of step_tuple_two_shots] ok(1)
    by (cases "process_step env_disk_full ''task_1'' ''20250101_000000'' [] 0
                 step_tuple_two_shots (init_results ''task_1'' [])")
       (simp_all add: Let_def names outs start)
  have b: "map_sum id (\<lambda>r. (res_screenshots r, res_screenshot_urls r))
        (process_step env_disk_full ''task_1'' ''20250101_000000'' [] 0 step_tuple_bytes
           (init_results ''task_1'' []))
       = Inr ([], [])"
    using t[of step_tuple_bytes] ok(2)
    by (cases "process_step env_disk_full ''task_1'' ''20250101_000000'' [] 0
                 step_tuple_bytes (init_results ''task_1'' [])")
       (simp_all add: Let_def names outs start)
  have c: "map_sum id (\<lambda>r. (res_screenshots r, res_screenshot_urls r))
        (process_step env_disk_full ''task_1'' ''20250101_000000'' [] 0 step_other_two_shots
           (init_results ''task_1'' []))
       = Inr ([''operation_logs/screenshots/task_1_step_1_20250101_000000.png''],
              [''/screenshots/task_1_step_1_20250101_000000.png''])"
    using t[of step_other_two_shots] ok(3)
    by (cases "process_step env_disk_full ''task_1'' ''20250101_000000'' [] 0
                 step_other_two_shots (init_results ''task_1'' [])")
       (simp_all add: Let_def names outs start)
  have d: "map_sum id (\<lambda>r. (res_screenshots r, res_screenshot_urls r))
        (process_step env_disk_full ''task_1'' ''20250101_000000'' [] 0 step_navigate
           (init_results ''task_1'' []))
       = Inr ([], [])"
    using t[of step_navigate] ok(4)
    by (cases "process_step env_disk_full ''task_1'' ''20250101_000000'' [] 0
                 step_navigate (init_results ''task_1'' [])")
       (simp_all add: Let_def names outs start)
  have e: "map_sum snd id
        (process_steps env_ok ''task_1'' ''20250101_000000'' [] 0
           [step_done_without_success, step_navigate] (init_results ''task_1'' []))
       = Inl (init_results ''task_1'' [])"
    using screenshot_lists_lockstep[of env_ok "''task_1''" "''20250101_000000''" "[]"
      "[]" None None "Inr []" None "init_results ''task_1'' []" 0 step_done_without_success
      "[step_navigate]" "[]" None] ok(5)
    by simp
  from screenshot_lists_lockstep[of env_ok "''task_1''" "''20250101_000000''" "[]" "[]"
      "Some (''operation_logs/screenshots/task_1_initial_20250101_000000.png'',
             ''/screenshots/task_1_initial_20250101_000000.png'')" None
      "Inr [step_navigate, step_unrecognized]" None] n
  have f: "length (res_screenshot_urls (execute_task env_ok ''task_1'' ''20250101_000000'' []
        (Some (''operation_logs/screenshots/task_1_initial_20250101_000000.png'',
               ''/screenshots/task_1_initial_20250101_000000.png'')) None
        (Inr [step_navigate, step_unrecognized]) None)) = 2"
    by simp
  show ?thesis using ok outs(1,2) a b c d e n f by simp
qed


text \<open>A tuple item whose screenshot is neither bytes nor an image: the attempt
  completes without a write.\<close>

lemma unwritten_screenshot_attempt:
  "persistence_attempts env path
     (TupleStep [tuple_item_of ''click'' None, tuple_item_of ''clicked'' None,
                 tuple_item_of ''state'' (Some Opaque)]) = [None]"
  by (simp add: persistence_attempts_def tuple_item_of_def List.map_filter_def)


subsection \<open>What a failed screenshot leaves untouched\<close>


lemma core_triple [simp]: "state_core (si, es, res) = (info_core si, enhanced_core es)"
  by (simp add: state_core_def)

lemma core_attach [simp]: "state_core (attach_screenshot filename st) = state_core st"
  by (cases st) (simp add: attach_screenshot_def info_core_def enhanced_core_def)

lemma core_note [simp]: "state_core (note_error label e st) = state_core st"
  by (cases st) (simp add: note_error_def info_core_def enhanced_core_def)


lemma core_other_screenshots [simp]:
  "state_core (other_screenshots env filename shots attrs st) = state_core st"
  by (induction attrs arbitrary: st) (simp_all split: option.splits)

lemma core_agent_history_screenshot [simp]:
  "state_core (agent_history_screenshot env filename data st) = state_core st"
  by (simp add: agent_history_screenshot_def split: option.splits)







subsection \<open>Failures\<close>










end
